theory Spec2Isabelle
  imports Complex_Main
begin

section \<open>JavaScript values used by the viewer and the project server\<close>

text \<open>
  Strings are ASCII character lists.  \<open>String n\<close> of a non-negative integer is its
  decimal numeral without leading zeros.
\<close>

definition digit_char :: "nat \<Rightarrow> char" where
  "digit_char d = ''0123456789'' ! d"

fun String_of_nat :: "nat \<Rightarrow> string" where
  "String_of_nat n =
     (if n < 10 then [digit_char n]
      else String_of_nat (n div 10) @ [digit_char (n mod 10)])"

declare String_of_nat.simps [simp del]

text \<open>
  \<open>a || b\<close> on a string-valued property that may be undefined: the left operand wins
  exactly when it is truthy, that is, defined and not the empty string.
\<close>

definition truthy :: "string option \<Rightarrow> bool" where
  "truthy v = (case v of None \<Rightarrow> False | Some s \<Rightarrow> s \<noteq> [])"

definition js_or :: "string option \<Rightarrow> string \<Rightarrow> string" where
  "js_or v d = (case v of None \<Rightarrow> d | Some s \<Rightarrow> if s \<noteq> [] then s else d)"

section \<open>Colours and materials (viewer)\<close>

definition PART_COLORS :: "string list" where
  "PART_COLORS =
     [''#f97316'', ''#22c55e'', ''#3b82f6'', ''#eab308'',
      ''#ec4899'', ''#8b5cf6'', ''#06b6d4'', ''#f59e0b'']"

definition getPartColor :: "nat \<Rightarrow> string" where
  "getPartColor index = PART_COLORS ! (index mod length PART_COLORS)"

record preset =
  p_shininess :: nat
  p_specular :: nat
  p_transparent :: bool
  p_opacity :: real

text \<open>The table \<open>MATERIAL_PRESETS\<close>; a key outside the table is undefined.\<close>

definition MATERIAL_PRESETS :: "string \<Rightarrow> preset option" where
  "MATERIAL_PRESETS k =
     (if k = ''plastic'' then
        Some \<lparr>p_shininess = 30, p_specular = 0x444444, p_transparent = False, p_opacity = 1\<rparr>
      else if k = ''metal'' then
        Some \<lparr>p_shininess = 80, p_specular = 0xcccccc, p_transparent = False, p_opacity = 1\<rparr>
      else if k = ''roughMetal'' then
        Some \<lparr>p_shininess = 25, p_specular = 0x888888, p_transparent = False, p_opacity = 1\<rparr>
      else if k = ''rubber'' then
        Some \<lparr>p_shininess = 5, p_specular = 0x111111, p_transparent = False, p_opacity = 1\<rparr>
      else if k = ''glass'' then
        Some \<lparr>p_shininess = 90, p_specular = 0xffffff, p_transparent = True, p_opacity = 1 / 4\<rparr>
      else None)"

definition plastic :: preset where
  "plastic = \<lparr>p_shininess = 30, p_specular = 0x444444, p_transparent = False, p_opacity = 1\<rparr>"

text \<open>
  A material of the rendering library.  \<open>isMeshPhongMaterial\<close> tells the Phong
  materials the viewer creates from the materials a file brings along.
\<close>

record material =
  isMeshPhongMaterial :: bool
  m_color :: string
  m_shininess :: nat
  m_specular :: nat
  m_transparent :: bool
  m_opacity :: real
  m_doubleSide :: bool
  m_needsUpdate :: bool

definition createMaterialForPart :: "string \<Rightarrow> string \<Rightarrow> material" where
  "createMaterialForPart colorHex presetKey =
     (let preset = (case MATERIAL_PRESETS presetKey of Some p \<Rightarrow> p | None \<Rightarrow> plastic)
      in \<lparr>isMeshPhongMaterial = True,
          m_color = (if colorHex \<noteq> [] then colorHex else ''#ffffff''),
          m_shininess = p_shininess preset,
          m_specular = p_specular preset,
          m_transparent = p_transparent preset,
          m_opacity = p_opacity preset,
          m_doubleSide = True,
          m_needsUpdate = False\<rparr>)"

section \<open>Scene trees and parts (viewer)\<close>

text \<open>
  A node of the scene tree carries the properties the viewer reads and writes:
  the mesh flag, the embedded name, the render visibility, the stamps in
  \<open>userData\<close> and the material.  The geometry buffer is the flat list of vertex
  coordinates a loader produced; the viewer never looks inside it.  The position and
  the rotation of the root are kept apart from the tree, in the record \<open>placed\<close> of the
  section on ground snapping: only the bounding box of the rendering library reads them.
\<close>

record obj3d =
  isMesh :: bool
  o_name :: string
  o_visible :: bool
  partId :: "nat option"
  baseColor :: "string option"
  o_material :: "material option"
  o_geometry :: "real list option"

datatype node = Node (props: obj3d) (children: "node list")

record part =
  part_id :: nat
  part_name :: string
  part_visible :: bool
  part_color :: string
  part_materialPreset :: string
  part_notes :: string

text \<open>
  \<open>Object3D.traverse\<close> of the rendering library: the callback runs on the node,
  then the traversal descends into the children from first to last.  The callback
  may mutate the node and a state of its own (the closed-over variables).
\<close>

fun traverse :: "(obj3d \<Rightarrow> 's \<Rightarrow> obj3d \<times> 's) \<Rightarrow> node \<Rightarrow> 's \<Rightarrow> node \<times> 's"
  and traverse_children :: "(obj3d \<Rightarrow> 's \<Rightarrow> obj3d \<times> 's) \<Rightarrow> node list \<Rightarrow> 's \<Rightarrow> node list \<times> 's"
where
  "traverse f (Node d cs) s =
     (case f d s of (d', s1) \<Rightarrow>
        (case traverse_children f cs s1 of (cs', s2) \<Rightarrow> (Node d' cs', s2)))"
| "traverse_children f [] s = ([], s)"
| "traverse_children f (c # cs) s =
     (case traverse f c s of (c', s1) \<Rightarrow>
        (case traverse_children f cs s1 of (cs', s2) \<Rightarrow> (c' # cs', s2)))"

text \<open>
  The callback of \<open>updatePartsFromRoot\<close>.  Its state is the pair of the counter
  \<open>index\<close> and the list \<open>newParts\<close>.
\<close>

definition plastic_material :: "string \<Rightarrow> material option \<Rightarrow> material" where
  "plastic_material partColor mat =
     (case mat of
        None \<Rightarrow> createMaterialForPart partColor ''plastic''
      | Some m \<Rightarrow>
          if \<not> isMeshPhongMaterial m then createMaterialForPart partColor ''plastic''
          else m\<lparr>m_color := partColor,
                 m_shininess := p_shininess plastic,
                 m_specular := p_specular plastic,
                 m_transparent := p_transparent plastic,
                 m_opacity := p_opacity plastic,
                 m_doubleSide := True,
                 m_needsUpdate := True\<rparr>)"

definition new_part :: "nat \<Rightarrow> obj3d \<Rightarrow> part" where
  "new_part index child =
     \<lparr>part_id = index,
      part_name = (if o_name child \<noteq> [] then o_name child
                   else ''Parte '' @ String_of_nat (index + 1)),
      part_visible = o_visible child,
      part_color = getPartColor index,
      part_materialPreset = ''plastic'',
      part_notes = ''''\<rparr>"

definition stamp :: "nat \<Rightarrow> obj3d \<Rightarrow> obj3d" where
  "stamp index child =
     child\<lparr>partId := Some index,
           baseColor := Some (getPartColor index),
           o_material := Some (plastic_material (getPartColor index) (o_material child))\<rparr>"

definition index_mesh :: "obj3d \<Rightarrow> nat \<times> part list \<Rightarrow> obj3d \<times> (nat \<times> part list)" where
  "index_mesh child st =
     (case st of (index, newParts) \<Rightarrow>
        if isMesh child
        then (stamp index child, (index + 1, newParts @ [new_part index child]))
        else (child, (index, newParts)))"

text \<open>
  \<open>updatePartsFromRoot\<close> returns the stamped tree (the mutation of \<open>root\<close>) and the
  list handed to \<open>setParts\<close>.
\<close>

definition updatePartsFromRoot :: "node \<Rightarrow> node \<times> part list" where
  "updatePartsFromRoot r =
     (case traverse index_mesh r (0, []) of (r', (index, newParts)) \<Rightarrow> (r', newParts))"

text \<open>The nodes of a tree in depth-first pre-order, and its meshes in that order.\<close>

fun preorder :: "node \<Rightarrow> obj3d list"
  and preorder_children :: "node list \<Rightarrow> obj3d list"
where
  "preorder (Node d cs) = d # preorder_children cs"
| "preorder_children [] = []"
| "preorder_children (c # cs) = preorder c @ preorder_children cs"

definition meshes :: "node \<Rightarrow> obj3d list" where
  "meshes r = filter isMesh (preorder r)"

text \<open>
  The numbering a depth-first walk is expected to give, written on the pre-order
  list of nodes: the k-th mesh met gets the k-th number, counting from \<open>i\<close>.
  \<open>parts_from\<close> lists the expected part records, \<open>stamp_from\<close> the expected stamps.
\<close>

fun parts_from :: "nat \<Rightarrow> obj3d list \<Rightarrow> part list" where
  "parts_from i [] = []"
| "parts_from i (d # ds) =
     (if isMesh d then new_part i d # parts_from (Suc i) ds else parts_from i ds)"

fun stamp_from :: "nat \<Rightarrow> obj3d list \<Rightarrow> obj3d list" where
  "stamp_from i [] = []"
| "stamp_from i (d # ds) =
     (if isMesh d then stamp i d # stamp_from (Suc i) ds else d # stamp_from i ds)"

section \<open>Saved part metadata and its reconciliation (viewer)\<close>

record part_meta =
  meta_name :: "string option"
  meta_notes :: "string option"
  meta_color :: "string option"
  meta_materialPreset :: "string option"

text \<open>
  \<open>partsMeta\<close> is a JSON object: its keys are strings, and indexing it with a number
  converts the number to its string form first.
\<close>

type_synonym parts_meta = "string \<rightharpoonup> part_meta"

record vec3 =
  vx :: real
  vy :: real
  vz :: real

definition origin :: vec3 where
  "origin = \<lparr>vx = 0, vy = 0, vz = 0\<rparr>"

text \<open>A project as the viewer holds it, one element of the list \<open>GET /api/projects\<close> answers.\<close>

record client_project =
  cp_id :: nat
  cp_name :: string
  cp_position :: "vec3 option"
  cp_rotation :: "vec3 option"
  cp_modelFile :: "string option"
  cp_modelUrl :: "string option"
  cp_partsMeta :: "parts_meta option"
  cp_pendingNotes :: "string option"

definition meta_for :: "parts_meta \<Rightarrow> nat \<Rightarrow> part_meta option" where
  "meta_for meta i =
     (case meta (String_of_nat i) of
        Some m \<Rightarrow> Some m
      | None \<Rightarrow> (case meta (String_of_nat i) of Some m \<Rightarrow> Some m | None \<Rightarrow> None))"

definition overlay_meta :: "part_meta \<Rightarrow> part \<Rightarrow> part" where
  "overlay_meta m p =
     p\<lparr>part_name := js_or (meta_name m) (part_name p),
       part_notes := (case meta_notes m of Some n \<Rightarrow> n
                      | None \<Rightarrow> js_or (Some (part_notes p)) []),
       part_color := js_or (meta_color m) (js_or (Some (part_color p)) ''#22c55e''),
       part_materialPreset :=
         js_or (meta_materialPreset m) (js_or (Some (part_materialPreset p)) ''plastic'')\<rparr>"

text \<open>
  \<open>applyProjectPartsMeta\<close> as a function of the Part list it updates: without a
  project or without \<open>partsMeta\<close> the list stays as it is.
\<close>

definition applyProjectPartsMeta :: "client_project option \<Rightarrow> part list \<Rightarrow> part list" where
  "applyProjectPartsMeta project prev =
     (case project of
        None \<Rightarrow> prev
      | Some pr \<Rightarrow>
          (case cp_partsMeta pr of
             None \<Rightarrow> prev
           | Some meta \<Rightarrow>
               map (\<lambda>p. case meta_for meta (part_id p) of
                           None \<Rightarrow> p
                         | Some m \<Rightarrow> overlay_meta m p) prev))"

text \<open>
  The reconciliation as the specification words it: a field of the entry is taken
  whenever the entry has it, and the part's own value exactly when the entry lacks it.
\<close>

definition overlay_meta_spec :: "part_meta \<Rightarrow> part \<Rightarrow> part" where
  "overlay_meta_spec m p =
     p\<lparr>part_name := (case meta_name m of Some v \<Rightarrow> v | None \<Rightarrow> part_name p),
       part_notes := (case meta_notes m of Some v \<Rightarrow> v | None \<Rightarrow> part_notes p),
       part_color := (case meta_color m of Some v \<Rightarrow> v | None \<Rightarrow> part_color p),
       part_materialPreset :=
         (case meta_materialPreset m of Some v \<Rightarrow> v | None \<Rightarrow> part_materialPreset p)\<rparr>"

definition reconcile_spec :: "parts_meta \<Rightarrow> part list \<Rightarrow> part list" where
  "reconcile_spec meta ps =
     map (\<lambda>p. case meta (String_of_nat (part_id p)) of
                 None \<Rightarrow> p
               | Some m \<Rightarrow> overlay_meta_spec m p) ps"

section \<open>The model slot and its loads (viewer)\<close>

record viewer =
  modelRef :: "node option"
  parts :: "part list"
  editingPartId :: "nat option"
  hasModel :: bool
  visible :: bool
  position :: vec3
  rotation :: vec3
  modelName :: string
  modelType :: string
  currentProjectId :: "nat option"
  pendingNotes :: string
  objectUrl :: "string option"
  projects :: "client_project list"

text \<open>
  \<open>clearCurrentModel\<close> does nothing without an active model.  The scene itself exists
  from the moment the viewer is mounted, so only \<open>modelRef\<close> decides.
\<close>

definition clearCurrentModel :: "viewer \<Rightarrow> viewer" where
  "clearCurrentModel v =
     (case modelRef v of
        None \<Rightarrow> v
      | Some old \<Rightarrow> v\<lparr>modelRef := None, parts := [], editingPartId := None\<rparr>)"

text \<open>
  \<open>addRootToScene\<close>: the old model is cleared, the new root becomes the active one,
  the transform state is reset and the parts are indexed.  Centring, ground snapping
  and the camera fit only move the root and the camera, which the model leaves out.
\<close>

definition addRootToScene :: "node \<Rightarrow> viewer \<Rightarrow> viewer" where
  "addRootToScene r v =
     (let v1 = clearCurrentModel v in
      case updatePartsFromRoot r of (r', newParts) \<Rightarrow>
        v1\<lparr>modelRef := Some r', hasModel := True, visible := True,
           position := origin, rotation := origin, parts := newParts\<rparr>)"

definition applyTransformAndMeta :: "client_project \<Rightarrow> viewer \<Rightarrow> viewer" where
  "applyTransformAndMeta project v =
     v\<lparr>position := (case cp_position project of Some p \<Rightarrow> p | None \<Rightarrow> origin),
       rotation := (case cp_rotation project of Some q \<Rightarrow> q | None \<Rightarrow> origin),
       parts := applyProjectPartsMeta (Some project) (parts v)\<rparr>"

datatype loader = STL | OBJ | GLTF | PLY | ThreeMF

text \<open>
  What a loader of the rendering library hands to its completion callback: the STL
  and PLY loaders a geometry, the OBJ and 3MF loaders an object, the glTF loader a
  result with \<open>scene\<close> and \<open>scenes\<close>.
\<close>

datatype payload = Geometry "real list" | Object node | Gltf "node option" "node list"

text \<open>
  A load in flight: the loader that was started, the URL it reads, and the project
  whose \<open>applyTransformAndMeta\<close> was passed as \<open>onLoaded\<close> (none for a local file).
\<close>

record pending =
  ld_loader :: loader
  ld_url :: string
  ld_onLoaded :: "client_project option"

definition new_mesh :: "real list \<Rightarrow> node" where
  "new_mesh geometry =
     Node \<lparr>isMesh = True, o_name = [], o_visible = True, partId = None, baseColor = None,
           o_material = Some (createMaterialForPart ''#ffffff'' ''plastic''),
           o_geometry = Some geometry\<rparr> []"

text \<open>
  The root a completion callback builds from what its loader delivered.  A glTF
  result without any scene gives no root; a loader never delivers the result of
  another loader.
\<close>

fun loaded_root :: "loader \<Rightarrow> payload \<Rightarrow> node option option" where
  "loaded_root STL (Geometry g) = Some (Some (new_mesh g))"
| "loaded_root PLY (Geometry g) = Some (Some (new_mesh g))"
| "loaded_root OBJ (Object r) = Some (Some r)"
| "loaded_root ThreeMF (Object r) = Some (Some r)"
| "loaded_root GLTF (Gltf (Some r) scs) = Some (Some r)"
| "loaded_root GLTF (Gltf None (r # scs)) = Some (Some r)"
| "loaded_root GLTF (Gltf None []) = Some None"
| "loaded_root l p = None"

text \<open>
  The completion callback of \<open>loadSTL\<close>, \<open>loadOBJ\<close>, \<open>loadGLTF\<close>, \<open>loadPLY\<close> and
  \<open>load3MF\<close>: \<open>addRootToScene\<close>, then \<open>onLoaded\<close> when it is a function.  It reads
  nothing that tells whether a newer load has started.  With an undefined root
  \<open>addRootToScene\<close> stops with a TypeError right after \<open>clearCurrentModel\<close>.
\<close>

definition on_load :: "pending \<Rightarrow> payload \<Rightarrow> viewer \<Rightarrow> viewer" where
  "on_load ld pl v =
     (case loaded_root (ld_loader ld) pl of
        None \<Rightarrow> v
      | Some None \<Rightarrow> clearCurrentModel v
      | Some (Some r) \<Rightarrow>
          (let v' = addRootToScene r v in
           case ld_onLoaded ld of
             None \<Rightarrow> v'
           | Some project \<Rightarrow> applyTransformAndMeta project v'))"

definition to_lower_char :: "char \<Rightarrow> char" where
  "to_lower_char c =
     (case map_of (zip ''ABCDEFGHIJKLMNOPQRSTUVWXYZ'' ''abcdefghijklmnopqrstuvwxyz'') c of
        Some l \<Rightarrow> l
      | None \<Rightarrow> c)"

definition toLowerCase :: "string \<Rightarrow> string" where
  "toLowerCase s = map to_lower_char s"

text \<open>\<open>name.split(".").pop()\<close>: the text after the last dot, the whole name without one.\<close>

definition last_segment :: "string \<Rightarrow> string" where
  "last_segment s = rev (takeWhile (\<lambda>c. c \<noteq> CHR ''.'') (rev s))"

definition loader_for :: "string \<Rightarrow> loader option" where
  "loader_for ext =
     (if ext = ''stl'' then Some STL
      else if ext = ''obj'' then Some OBJ
      else if ext = ''gltf'' \<or> ext = ''glb'' then Some GLTF
      else if ext = ''ply'' then Some PLY
      else if ext = ''3mf'' then Some ThreeMF
      else None)"

text \<open>
  The viewer together with the loads in flight.  Starting a load appends it; the
  runtime later delivers the completion of any load in flight, in any order.
\<close>

record session =
  view :: viewer
  inflight :: "pending list"

definition start_load :: "string \<Rightarrow> string \<Rightarrow> client_project option \<Rightarrow> session \<Rightarrow> session" where
  "start_load ext url onLoaded s =
     (case loader_for ext of
        None \<Rightarrow> s
      | Some l \<Rightarrow>
          s\<lparr>inflight := inflight s @ [\<lparr>ld_loader = l, ld_url = url, ld_onLoaded = onLoaded\<rparr>]\<rparr>)"

text \<open>
  \<open>handleFileChange\<close>: the chosen file is given by its name and by the object URL
  the browser creates for it.
\<close>

definition handleFileChange :: "(string \<times> string) option \<Rightarrow> session \<Rightarrow> session" where
  "handleFileChange file s =
     (case file of
        None \<Rightarrow> s
      | Some (name, url) \<Rightarrow>
          (let ext = toLowerCase (last_segment name);
               v = (view s)\<lparr>modelName := name, modelType := ext, currentProjectId := None,
                            pendingNotes := [], editingPartId := None,
                            objectUrl := Some url\<rparr>
           in start_load ext url None (s\<lparr>view := v\<rparr>)))"

definition handleLoadProject :: "nat \<Rightarrow> session \<Rightarrow> session" where
  "handleLoadProject projectId s =
     (case find (\<lambda>p. cp_id p = projectId) (projects (view s)) of
        None \<Rightarrow> s
      | Some project \<Rightarrow>
          if \<not> truthy (cp_modelFile project) \<or> \<not> truthy (cp_modelUrl project) then s
          else
            (let url = js_or (cp_modelUrl project) [];
                 ext = toLowerCase (last_segment (js_or (cp_modelFile project) []));
                 v = (view s)\<lparr>objectUrl := None,
                              modelName := js_or (cp_modelFile project) [],
                              modelType := ext,
                              currentProjectId := Some (cp_id project),
                              pendingNotes := js_or (cp_pendingNotes project) [],
                              editingPartId := None\<rparr>
             in start_load ext url (Some project) (s\<lparr>view := v\<rparr>)))"

datatype event =
    FileChange "(string \<times> string) option"
  | LoadProject nat
  | Loaded nat payload
  | LoadFailed nat

definition drop_nth :: "nat \<Rightarrow> 'a list \<Rightarrow> 'a list" where
  "drop_nth k xs = take k xs @ drop (Suc k) xs"

text \<open>
  One event of the single control thread.  \<open>Loaded k pl\<close> is the completion of the
  k-th load in flight with the loader's result \<open>pl\<close>; \<open>LoadFailed k\<close> is its error
  callback, which only reports.
\<close>

fun step :: "session \<Rightarrow> event \<Rightarrow> session" where
  "step s (FileChange file) = handleFileChange file s"
| "step s (LoadProject projectId) = handleLoadProject projectId s"
| "step s (Loaded k pl) =
     (if k < length (inflight s)
      then \<lparr>view = on_load (inflight s ! k) pl (view s), inflight = drop_nth k (inflight s)\<rparr>
      else s)"
| "step s (LoadFailed k) = s\<lparr>inflight := drop_nth k (inflight s)\<rparr>"

definition run :: "session \<Rightarrow> event list \<Rightarrow> session" where
  "run s es = foldl step s es"

section \<open>Ground snapping (viewer)\<close>

text \<open>
  The active model as the rendering library places it: the root with its position
  and its rotation (in radians).  Coordinates are real numbers.
\<close>

record placed =
  obj_position :: vec3
  obj_rotation :: vec3
  obj_root :: node

text \<open>
  \<open>snapModelToGround\<close>.  Its parameter \<open>box_min_y\<close> stands for the rendering library's
  \<open>new THREE.Box3().setFromObject(object).min.y\<close>, the least world Y of the object as it
  is placed; \<open>None\<close> is a value that is not finite (the empty box).
\<close>

definition snapModelToGround :: "(placed \<Rightarrow> real option) \<Rightarrow> placed option \<Rightarrow> placed option" where
  "snapModelToGround box_min_y object =
     (case object of
        None \<Rightarrow> None
      | Some obj \<Rightarrow>
          (case box_min_y obj of
             None \<Rightarrow> Some obj
           | Some minY \<Rightarrow>
               Some (obj\<lparr>obj_position := (obj_position obj)\<lparr>vy := vy (obj_position obj) - minY\<rparr>\<rparr>)))"

definition degToRad :: "real \<Rightarrow> real" where
  "degToRad degrees = degrees * (pi / 180)"

text \<open>
  The effects that run after every change of the \<open>position\<close> and of the \<open>rotation\<close>
  state; \<open>model\<close> is \<open>modelRef.current\<close> and \<open>tag\<close> is \<open>modelTypeRef.current\<close>.
\<close>

definition position_effect ::
  "(placed \<Rightarrow> real option) \<Rightarrow> string \<Rightarrow> vec3 \<Rightarrow> placed option \<Rightarrow> placed option"
where
  "position_effect box_min_y tag pos model =
     (case model of
        None \<Rightarrow> None
      | Some obj \<Rightarrow>
          (let moved = obj\<lparr>obj_position := \<lparr>vx = vx pos, vy = vy pos, vz = vz pos\<rparr>\<rparr>
           in if tag = ''stl'' then snapModelToGround box_min_y (Some moved) else Some moved))"

definition rotation_effect ::
  "(placed \<Rightarrow> real option) \<Rightarrow> string \<Rightarrow> vec3 \<Rightarrow> placed option \<Rightarrow> placed option"
where
  "rotation_effect box_min_y tag rot model =
     (case model of
        None \<Rightarrow> None
      | Some obj \<Rightarrow>
          (let turned = obj\<lparr>obj_rotation :=
                             \<lparr>vx = degToRad (vx rot), vy = degToRad (vy rot),
                              vz = degToRad (vz rot)\<rparr>\<rparr>
           in if tag = ''stl'' then snapModelToGround box_min_y (Some turned) else Some turned))"

section \<open>The project server\<close>

text \<open>
  The store is the list of projects in the JSON database file.  The files under the
  public directory (model files and the \<open>scene.json\<close> copies) and failures of the file
  system are left out; the handlers are taken one request at a time.  The SHA-256
  function of the platform is the parameter \<open>hashPassword\<close> of every handler that
  checks a password.
\<close>

record project =
  proj_id :: nat
  proj_name :: string
  proj_author :: string
  proj_date :: string
  proj_slug :: string
  passwordHash :: string
  modelFile :: string
  proj_position :: vec3
  proj_rotation :: vec3
  partsMeta :: "parts_meta option"
  proj_pendingNotes :: string

record response =
  status :: nat
  ok :: bool
  projectId :: "nat option"

definition failure :: "nat \<Rightarrow> response" where
  "failure code = \<lparr>status = code, ok = False, projectId = None\<rparr>"

definition success :: response where
  "success = \<lparr>status = 200, ok = True, projectId = None\<rparr>"

text \<open>\<open>findProject\<close> compares the string forms of the stored id and of the id in the URL.\<close>

definition same_id :: "string \<Rightarrow> project \<Rightarrow> bool" where
  "same_id rid p = (String_of_nat (proj_id p) = rid)"

definition findProject :: "project list \<Rightarrow> string \<Rightarrow> project option" where
  "findProject projs rid = find (same_id rid) projs"

text \<open>
  A handler mutates the object \<open>findProject\<close> returned, which is the first match in
  the list that is then saved.
\<close>

fun update_first :: "('a \<Rightarrow> bool) \<Rightarrow> ('a \<Rightarrow> 'a) \<Rightarrow> 'a list \<Rightarrow> 'a list" where
  "update_first P f [] = []"
| "update_first P f (x # xs) = (if P x then f x # xs else x # update_first P f xs)"

fun findIndex :: "('a \<Rightarrow> bool) \<Rightarrow> 'a list \<Rightarrow> nat option" where
  "findIndex P [] = None"
| "findIndex P (x # xs) =
     (if P x then Some 0 else (case findIndex P xs of None \<Rightarrow> None | Some i \<Rightarrow> Some (Suc i)))"

text \<open>\<open>Math.max\<close> of a non-empty list; the handler never applies it to an empty one.\<close>

fun Math_max :: "nat list \<Rightarrow> nat" where
  "Math_max [] = 0"
| "Math_max (x # xs) = fold max xs x"

text \<open>
  Project ids are JavaScript numbers, that is IEEE doubles; the model keeps the
  integer-valued ones as natural numbers.  Every integer up to \<open>2^53 = 9007199254740992\<close>
  is a double; above it the doubles are \<open>spacing\<close> apart, and a sum is rounded to the
  nearest double, a tie going to the one with the even mantissa.  \<open>round_double n\<close> is
  the double that an addition with the exact result \<open>n\<close> returns.
\<close>

fun spacing :: "nat \<Rightarrow> nat" where
  "spacing n = (if n < 9007199254740992 then 1 else 2 * spacing (n div 2))"

declare spacing.simps [simp del]

definition round_double :: "nat \<Rightarrow> nat" where
  "round_double n =
     (let u = spacing n; q = n div u; r = n mod u
      in if 2 * r < u then q * u
         else if u < 2 * r then (q + 1) * u
         else if even q then q * u
         else (q + 1) * u)"

text \<open>
  The folder name of a project: lower case, every run of characters other than
  \<open>a-z\<close> and \<open>0-9\<close> turned into one dash, dashes trimmed at both ends, at most 40
  characters, \<open>proyecto\<close> when nothing is left.  On ASCII names the Unicode
  normalisation and the removal of combining marks change nothing.
\<close>

definition slug_char :: "char \<Rightarrow> bool" where
  "slug_char c = (c \<in> set ''abcdefghijklmnopqrstuvwxyz0123456789'')"

fun dash_runs :: "bool \<Rightarrow> string \<Rightarrow> string" where
  "dash_runs in_run [] = []"
| "dash_runs in_run (c # cs) =
     (if slug_char c then c # dash_runs False cs
      else if in_run then dash_runs True cs
      else CHR ''-'' # dash_runs True cs)"

definition trim_dashes :: "string \<Rightarrow> string" where
  "trim_dashes s =
     rev (dropWhile (\<lambda>c. c = CHR ''-'') (rev (dropWhile (\<lambda>c. c = CHR ''-'') s)))"

definition slug_text :: "string \<Rightarrow> string" where
  "slug_text name =
     (let t = take 40 (trim_dashes (dash_runs False (toLowerCase name)))
      in if t \<noteq> [] then t else ''proyecto'')"

definition make_slug :: "nat \<Rightarrow> string \<Rightarrow> string" where
  "make_slug n name = String_of_nat n @ ''-'' @ slug_text name"

text \<open>
  \<open>path.extname\<close> of the platform on a file name without directory part: the text
  from the last dot on, and nothing when there is no dot, when the last dot is the
  first character, or when the name is \<open>..\<close>.
\<close>

definition extname :: "string \<Rightarrow> string" where
  "extname b =
     (if CHR ''.'' \<notin> set b then []
      else if length (last_segment b) + 1 = length b then []
      else if b = ''..'' then []
      else CHR ''.'' # last_segment b)"

definition model_file_name :: "string \<Rightarrow> string" where
  "model_file_name originalname =
     (let ext = (if extname originalname \<noteq> [] then extname originalname else ''.bin'')
      in ''modelo'' @ toLowerCase ext)"

text \<open>
  A text field of the multipart form that the handler parses as JSON: missing (or
  empty), not parsable, or parsed.
\<close>

datatype 'a json_field = Missing | Unparsable | Parsed 'a

definition parsed_or :: "'a json_field \<Rightarrow> 'a \<Rightarrow> 'a" where
  "parsed_or f d = (case f of Missing \<Rightarrow> d | Unparsable \<Rightarrow> d | Parsed v \<Rightarrow> v)"

record upload =
  originalname :: string

record create_body =
  c_projectName :: "string option"
  c_author :: "string option"
  c_password :: "string option"
  c_date :: "string option"
  c_position :: "vec3 json_field"
  c_rotation :: "vec3 json_field"
  c_partsMeta :: "parts_meta json_field"

text \<open>\<open>POST /api/projects\<close>.\<close>

definition post_project ::
  "(string \<Rightarrow> string) \<Rightarrow> project list \<Rightarrow> upload option \<Rightarrow> create_body \<Rightarrow> response \<times> project list"
where
  "post_project hashPassword projs file body =
     (case file of
        None \<Rightarrow> (failure 400, projs)
      | Some f \<Rightarrow>
          if \<not> truthy (c_projectName body) \<or> \<not> truthy (c_password body)
          then (failure 400, projs)
          else
            (let projectName = js_or (c_projectName body) [];
                 password = js_or (c_password body) [];
                 newId = (if length projs \<noteq> 0
                          then round_double (Math_max (map proj_id projs) + 1) else 1);
                 newProject =
                   \<lparr>proj_id = newId,
                    proj_name = projectName,
                    proj_author = js_or (c_author body) [],
                    proj_date = js_or (c_date body) [],
                    proj_slug = make_slug newId projectName,
                    passwordHash = hashPassword password,
                    modelFile = model_file_name (originalname f),
                    proj_position = parsed_or (c_position body) origin,
                    proj_rotation = parsed_or (c_rotation body) origin,
                    partsMeta = Some (parsed_or (c_partsMeta body) Map.empty),
                    proj_pendingNotes = []\<rparr>
             in (\<lparr>status = 200, ok = True, projectId = Some newId\<rparr>, projs @ [newProject])))"

text \<open>
  \<open>PUT /api/projects/:id/model\<close>.  The handler reads the id and the file of the
  request; \<open>password\<close> stands for the password field of the request, which the
  handler never reads.
\<close>

definition put_model ::
  "project list \<Rightarrow> string \<Rightarrow> upload option \<Rightarrow> string option \<Rightarrow> response \<times> project list"
where
  "put_model projs rid file password =
     (case file of
        None \<Rightarrow> (failure 400, projs)
      | Some f \<Rightarrow>
          (case findProject projs rid of
             None \<Rightarrow> (failure 404, projs)
           | Some project \<Rightarrow>
               (success,
                update_first (same_id rid)
                  (\<lambda>p. p\<lparr>modelFile := model_file_name (originalname f)\<rparr>) projs)))"

record transform_body =
  t_position :: "vec3 option"
  t_rotation :: "vec3 option"
  t_password :: "string option"

text \<open>\<open>PUT /api/projects/:id/transform\<close>; a request without a body has no field at all.\<close>

definition put_transform ::
  "(string \<Rightarrow> string) \<Rightarrow> project list \<Rightarrow> string \<Rightarrow> transform_body option \<Rightarrow> response \<times> project list"
where
  "put_transform hashPassword projs rid body =
     (let b = (case body of
                 None \<Rightarrow> \<lparr>t_position = None, t_rotation = None, t_password = None\<rparr>
               | Some b' \<Rightarrow> b')
      in if \<not> truthy (t_password b) then (failure 400, projs)
         else
           (case findProject projs rid of
              None \<Rightarrow> (failure 404, projs)
            | Some project \<Rightarrow>
                if hashPassword (js_or (t_password b) []) \<noteq> passwordHash project
                then (failure 403, projs)
                else
                  (success,
                   update_first (same_id rid)
                     (\<lambda>p. p\<lparr>proj_position :=
                               (case t_position b of Some v \<Rightarrow> v | None \<Rightarrow> origin),
                             proj_rotation :=
                               (case t_rotation b of Some v \<Rightarrow> v | None \<Rightarrow> origin)\<rparr>)
                     projs)))"

text \<open>
  A part id in a request body: a JSON number or a JSON string.  The numbers kept are
  the non-negative integers; \<open>String\<close> prints those below \<open>2^53\<close> as their decimal
  numeral, and \<open>plain_key\<close> marks the keys in this range.
\<close>

datatype part_key = NumKey nat | StrKey string

fun String_of_key :: "part_key \<Rightarrow> string" where
  "String_of_key (NumKey n) = String_of_nat n"
| "String_of_key (StrKey s) = s"


record meta_body =
  b_partId :: "part_key option"
  b_name :: "string option"
  b_notes :: "string option"
  b_color :: "string option"
  b_materialPreset :: "string option"
  b_password :: "string option"

definition no_meta :: part_meta where
  "no_meta = \<lparr>meta_name = None, meta_notes = None, meta_color = None,
              meta_materialPreset = None\<rparr>"

definition merge_meta :: "meta_body \<Rightarrow> part_meta \<Rightarrow> part_meta" where
  "merge_meta b prev =
     \<lparr>meta_name = Some (case b_name b of Some v \<Rightarrow> v | None \<Rightarrow> js_or (meta_name prev) []),
      meta_notes = Some (case b_notes b of Some v \<Rightarrow> v | None \<Rightarrow> js_or (meta_notes prev) []),
      meta_color =
        Some (case b_color b of Some v \<Rightarrow> v | None \<Rightarrow> js_or (meta_color prev) ''#22c55e''),
      meta_materialPreset =
        Some (case b_materialPreset b of Some v \<Rightarrow> v
              | None \<Rightarrow> js_or (meta_materialPreset prev) ''plastic'')\<rparr>"

text \<open>
  \<open>partsMeta\<close> is a plain object, so \<open>partsMeta[key]\<close> looks for an own property first
  and then along the prototype chain.  A \<open>parts_meta\<close> map holds the own properties.
  \<open>Object.prototype\<close> has the function-valued properties listed below, \<open>constructor\<close>
  (the function \<open>Object\<close>) and the accessor \<open>__proto__\<close> (which reads as
  \<open>Object.prototype\<close> itself).  Read as a previous entry, a function has its own name
  as \<open>name\<close> and none of the other three fields, and \<open>Object.prototype\<close> has none of
  the four.
\<close>

definition Object_prototype_functions :: "string list" where
  "Object_prototype_functions =
     [''__defineGetter__'', ''__defineSetter__'', ''hasOwnProperty'', ''__lookupGetter__'',
      ''__lookupSetter__'', ''isPrototypeOf'', ''propertyIsEnumerable'', ''toString'',
      ''valueOf'', ''toLocaleString'']"


definition inherited_entry :: "string \<Rightarrow> part_meta option" where
  "inherited_entry key =
     (if key = ''constructor'' then Some (no_meta\<lparr>meta_name := Some ''Object''\<rparr>)
      else if key \<in> set Object_prototype_functions then Some (no_meta\<lparr>meta_name := Some key\<rparr>)
      else if key = ''__proto__'' then Some no_meta
      else None)"

text \<open>
  The update of one project by the handler: \<open>prev = project.partsMeta[key] || {}\<close>, then
  the assignment \<open>project.partsMeta[key] = {...}\<close>.  The assignment creates or replaces an
  own property, except for the key \<open>__proto__\<close> without an own property of that name:
  there it calls the accessor, which replaces the prototype of the object in memory
  and leaves its own properties, the only ones that are saved, as they are.
\<close>

definition store_meta :: "meta_body \<Rightarrow> string \<Rightarrow> project \<Rightarrow> project" where
  "store_meta b key p =
     (let pm = (case partsMeta p of None \<Rightarrow> Map.empty | Some m \<Rightarrow> m);
          prev = (case pm key of
                    Some e \<Rightarrow> e
                  | None \<Rightarrow> (case inherited_entry key of Some e \<Rightarrow> e | None \<Rightarrow> no_meta))
      in if key = ''__proto__'' \<and> pm key = None then p\<lparr>partsMeta := Some pm\<rparr>
         else p\<lparr>partsMeta := Some (pm(key \<mapsto> merge_meta b prev))\<rparr>)"

text \<open>\<open>PUT /api/projects/:id/parts-meta\<close>.\<close>

definition put_parts_meta ::
  "(string \<Rightarrow> string) \<Rightarrow> project list \<Rightarrow> string \<Rightarrow> meta_body option \<Rightarrow> response \<times> project list"
where
  "put_parts_meta hashPassword projs rid body =
     (let b = (case body of
                 None \<Rightarrow> \<lparr>b_partId = None, b_name = None, b_notes = None, b_color = None,
                          b_materialPreset = None, b_password = None\<rparr>
               | Some b' \<Rightarrow> b')
      in case b_partId b of
           None \<Rightarrow> (failure 400, projs)
         | Some pkey \<Rightarrow>
             if \<not> truthy (b_password b) then (failure 400, projs)
             else
               (case findProject projs rid of
                  None \<Rightarrow> (failure 404, projs)
                | Some project \<Rightarrow>
                    if hashPassword (js_or (b_password b) []) \<noteq> passwordHash project
                    then (failure 403, projs)
                    else
                      (success,
                       update_first (same_id rid) (store_meta b (String_of_key pkey)) projs)))"

text \<open>\<open>DELETE /api/projects/:id\<close>; the body carries the password.\<close>

definition delete_project ::
  "(string \<Rightarrow> string) \<Rightarrow> project list \<Rightarrow> string \<Rightarrow> string option \<Rightarrow> response \<times> project list"
where
  "delete_project hashPassword projs rid password =
     (if \<not> truthy password then (failure 400, projs)
      else
        (case findIndex (same_id rid) projs of
           None \<Rightarrow> (failure 404, projs)
         | Some projectIndex \<Rightarrow>
             if hashPassword (js_or password []) \<noteq> passwordHash (projs ! projectIndex)
             then (failure 403, projs)
             else (success, drop_nth projectIndex projs)))"

text \<open>The entry stored for a part key of a project, as a later request finds it.\<close>

definition stored_meta :: "project list \<Rightarrow> string \<Rightarrow> string \<Rightarrow> part_meta option" where
  "stored_meta projs rid key =
     (case findProject projs rid of
        None \<Rightarrow> None
      | Some p \<Rightarrow> (case partsMeta p of None \<Rightarrow> None | Some m \<Rightarrow> m key))"

section \<open>Example data\<close>

definition ex_obj :: "string \<Rightarrow> bool \<Rightarrow> obj3d" where
  "ex_obj nm m = \<lparr>isMesh = m, o_name = nm, o_visible = True, partId = None, baseColor = None,
                  o_material = None, o_geometry = None\<rparr>"

definition ex_tree :: node where
  "ex_tree =
     Node (ex_obj ''scene'' False)
       [Node (ex_obj ''base'' True) [],
        Node (ex_obj ''arm'' False) [Node (ex_obj [] True) []],
        Node (ex_obj ''cap'' True) []]"

definition ex_parts :: "part list" where
  "ex_parts =
     [\<lparr>part_id = 0, part_name = ''base'', part_visible = True, part_color = ''#f97316'',
       part_materialPreset = ''plastic'', part_notes = []\<rparr>,
      \<lparr>part_id = 1, part_name = ''Parte 2'', part_visible = True, part_color = ''#22c55e'',
       part_materialPreset = ''plastic'', part_notes = []\<rparr>,
      \<lparr>part_id = 2, part_name = ''cap'', part_visible = True, part_color = ''#3b82f6'',
       part_materialPreset = ''plastic'', part_notes = []\<rparr>]"

definition ex_entry :: part_meta where
  "ex_entry = \<lparr>meta_name = Some [], meta_notes = Some ''revisar'',
               meta_color = Some ''#ff0000'', meta_materialPreset = None\<rparr>"

definition ex_meta :: parts_meta where
  "ex_meta = [''1'' \<mapsto> ex_entry]"

definition ex_client_project :: client_project where
  "ex_client_project =
     \<lparr>cp_id = 1, cp_name = ''Bracket v1'', cp_position = Some origin, cp_rotation = Some origin,
      cp_modelFile = Some ''modelo.obj'', cp_modelUrl = Some ''/public/1-bracket-v1/modelo.obj'',
      cp_partsMeta = Some ex_meta, cp_pendingNotes = Some []\<rparr>"

definition ex_viewer :: viewer where
  "ex_viewer =
     \<lparr>modelRef = None, parts = [], editingPartId = None, hasModel = False, visible = True,
      position = origin, rotation = origin, modelName = [], modelType = ''generic'',
      currentProjectId = None, pendingNotes = [], objectUrl = None, projects = []\<rparr>"

definition ex_session :: session where
  "ex_session = \<lparr>view = ex_viewer, inflight = []\<rparr>"

definition ex_geometry :: "real list" where
  "ex_geometry = [0, 0, 0, 1, 0, 0, 0, 1, 0]"

definition ex_start_A :: event where
  "ex_start_A = FileChange (Some (''a.obj'', ''blob:a''))"

definition ex_start_B :: event where
  "ex_start_B = FileChange (Some (''b.stl'', ''blob:b''))"

definition ex_done_A :: event where
  "ex_done_A = Loaded 0 (Object ex_tree)"

definition ex_done_B :: event where
  "ex_done_B = Loaded 1 (Geometry ex_geometry)"

definition ex_hash :: "string \<Rightarrow> string" where
  "ex_hash pw = ''sha256:'' @ pw"

definition ex_project :: project where
  "ex_project =
     \<lparr>proj_id = 1, proj_name = ''Bracket v1'', proj_author = ''ana'', proj_date = ''2024-05-01'',
      proj_slug = ''1-bracket-v1'', passwordHash = ex_hash ''abc123'', modelFile = ''modelo.stl'',
      proj_position = origin, proj_rotation = origin, partsMeta = Some Map.empty,
      proj_pendingNotes = []\<rparr>"

definition ex_db :: "project list" where
  "ex_db = [ex_project]"

definition ex_upload :: upload where
  "ex_upload = \<lparr>originalname = ''nuevo.OBJ''\<rparr>"

definition ex_move :: "string option \<Rightarrow> transform_body" where
  "ex_move pw = \<lparr>t_position = Some \<lparr>vx = 1, vy = 2, vz = 3\<rparr>, t_rotation = None, t_password = pw\<rparr>"

definition ex_create :: create_body where
  "ex_create =
     \<lparr>c_projectName = Some ''Soporte Motor'', c_author = Some ''ana'', c_password = Some ''xyz'',
      c_date = None, c_position = Missing, c_rotation = Unparsable, c_partsMeta = Parsed Map.empty\<rparr>"


definition ex_meta_second :: meta_body where
  "ex_meta_second =
     \<lparr>b_partId = Some (NumKey 0), b_name = None, b_notes = Some ''pulir'', b_color = None,
      b_materialPreset = None, b_password = Some ''abc123''\<rparr>"






definition ex_db_big :: "project list" where
  "ex_db_big = [ex_project\<lparr>proj_id := 9007199254740992\<rparr>]"

definition ex_box :: "placed \<Rightarrow> real option" where
  "ex_box obj = Some (vy (obj_position obj) - 5)"

definition ex_placed :: placed where
  "ex_placed = \<lparr>obj_position = origin, obj_rotation = origin, obj_root = new_mesh ex_geometry\<rparr>"

section \<open>Verification of the part indexer\<close>

lemma parts_from_append:
  "parts_from i (xs @ ys) = parts_from i xs @ parts_from (i + length (filter isMesh xs)) ys"
  by (induction xs arbitrary: i) auto

lemma stamp_from_append:
  "stamp_from i (xs @ ys) = stamp_from i xs @ stamp_from (i + length (filter isMesh xs)) ys"
  by (induction xs arbitrary: i) auto

lemma index_mesh_pair:
  "index_mesh d (i, ps) =
     (if isMesh d then (stamp i d, (Suc i, ps @ [new_part i d])) else (d, (i, ps)))"
  by (simp add: index_mesh_def)

lemma traverse_index_mesh:
  "traverse index_mesh t (i, ps) = (t', st) \<Longrightarrow>
     st = (i + length (filter isMesh (preorder t)), ps @ parts_from i (preorder t)) \<and>
     preorder t' = stamp_from i (preorder t)"
  "traverse_children index_mesh ts (i, ps) = (ts', st) \<Longrightarrow>
     st = (i + length (filter isMesh (preorder_children ts)), ps @ parts_from i (preorder_children ts)) \<and>
     preorder_children ts' = stamp_from i (preorder_children ts)"
proof (induction t and ts arbitrary: i ps t' st and i ps ts' st rule: preorder_preorder_children.induct)
  case (1 d cs)
  show ?case
  proof (cases "isMesh d")
    case True
    with "1.prems" obtain cs' where
      c: "traverse_children index_mesh cs (Suc i, ps @ [new_part i d]) = (cs', st)"
      and t: "t' = Node (stamp i d) cs'"
      by (auto simp: index_mesh_pair split: prod.splits)
    from "1.IH" [OF c] True t show ?thesis by simp
  next
    case False
    with "1.prems" obtain cs' where
      c: "traverse_children index_mesh cs (i, ps) = (cs', st)"
      and t: "t' = Node d cs'"
      by (auto simp: index_mesh_pair split: prod.splits)
    from "1.IH" [OF c] False t show ?thesis by simp
  qed
next
  case 2
  then show ?case by simp
next
  case (3 c cs)
  from "3.prems" obtain c' s1 cs' where
    a: "traverse index_mesh c (i, ps) = (c', s1)"
    and b: "traverse_children index_mesh cs s1 = (cs', st)"
    and t: "ts' = c' # cs'"
    by (auto split: prod.splits)
  from "3.IH"(1) [OF a] have
    s1: "s1 = (i + length (filter isMesh (preorder c)), ps @ parts_from i (preorder c))"
    and p1: "preorder c' = stamp_from i (preorder c)"
    by simp_all
  from "3.IH"(2) [OF b [unfolded s1]] t p1 show ?case
    by (simp add: parts_from_append stamp_from_append)
qed

lemma updatePartsFromRoot_eq:
  "snd (updatePartsFromRoot r) = parts_from 0 (preorder r)"
  "preorder (fst (updatePartsFromRoot r)) = stamp_from 0 (preorder r)"
proof -
  obtain r' st where t: "traverse index_mesh r (0, []) = (r', st)"
    by (cases "traverse index_mesh r (0, [])") auto
  from traverse_index_mesh(1) [OF t] t
  show "snd (updatePartsFromRoot r) = parts_from 0 (preorder r)"
    and "preorder (fst (updatePartsFromRoot r)) = stamp_from 0 (preorder r)"
    by (simp_all add: updatePartsFromRoot_def)
qed

lemma parts_from_ids: "map part_id (parts_from i ds) = [i ..< i + length (filter isMesh ds)]"
  by (induction ds arbitrary: i) (auto simp: new_part_def upt_rec)

lemma parts_from_zip:
  "parts_from i ds =
     map (\<lambda>(k, d). new_part k d) (zip [i ..< i + length (filter isMesh ds)] (filter isMesh ds))"
  by (induction ds arbitrary: i) (auto simp: upt_rec)

lemma isMesh_stamp: "isMesh (stamp i d) = isMesh d"
  by (simp add: stamp_def)

lemma new_part_stamp: "new_part i (stamp j d) = new_part i d"
  by (simp add: stamp_def new_part_def)

lemma parts_from_stamp_from: "parts_from i (stamp_from i ds) = parts_from i ds"
  by (induction ds arbitrary: i) (auto simp: isMesh_stamp new_part_stamp)

lemma partId_stamp_from:
  "map partId (filter isMesh (stamp_from i ds)) = map Some [i ..< i + length (filter isMesh ds)]"
  by (induction ds arbitrary: i) (auto simp: isMesh_stamp stamp_def upt_rec)

lemma partId_stamp_twice:
  "map partId (stamp_from i (stamp_from i ds)) = map partId (stamp_from i ds)"
  by (induction ds arbitrary: i) (auto simp: isMesh_stamp stamp_def)

text \<open>
  Claim C4.  For a scene root with exactly \<open>M\<close> mesh nodes, \<open>updatePartsFromRoot\<close>
  produces exactly \<open>M\<close> parts; their ids are \<open>0, ..., M - 1\<close> in this order, so each id
  occurs once; the k-th part is built from the k-th mesh of the depth-first pre-order
  walk, and that mesh is stamped with the id k.
\<close>

theorem updatePartsFromRoot_dense_ids:
  "length (meshes r) = M \<Longrightarrow>
     length (snd (updatePartsFromRoot r)) = M \<and>
     map part_id (snd (updatePartsFromRoot r)) = [0 ..< M] \<and>
     distinct (map part_id (snd (updatePartsFromRoot r))) \<and>
     snd (updatePartsFromRoot r) = map (\<lambda>(k, d). new_part k d) (zip [0 ..< M] (meshes r)) \<and>
     map partId (meshes (fst (updatePartsFromRoot r))) = map Some [0 ..< M]"
proof -
  assume M: "length (meshes r) = M"
  have ids: "map part_id (snd (updatePartsFromRoot r)) = [0 ..< M]"
    using M parts_from_ids [of 0 "preorder r"]
    by (simp add: updatePartsFromRoot_eq meshes_def)
  have len: "length (snd (updatePartsFromRoot r)) = M"
    using arg_cong [OF ids, of length] by simp
  have zip: "snd (updatePartsFromRoot r) = map (\<lambda>(k, d). new_part k d) (zip [0 ..< M] (meshes r))"
    using M parts_from_zip [of 0 "preorder r"]
    by (simp add: updatePartsFromRoot_eq meshes_def)
  have st: "map partId (meshes (fst (updatePartsFromRoot r))) = map Some [0 ..< M]"
    using M partId_stamp_from [of 0 "preorder r"]
    by (simp add: updatePartsFromRoot_eq meshes_def)
  from ids len zip st show ?thesis by simp
qed

lemma ex_tree_meshes: "meshes ex_tree = [ex_obj ''base'' True, ex_obj [] True, ex_obj ''cap'' True]"
  by (simp add: meshes_def ex_tree_def ex_obj_def)

theorem updatePartsFromRoot_dense_ids_witness:
  "length (meshes ex_tree) = 3 \<and>
   map part_id (snd (updatePartsFromRoot ex_tree)) = [0, 1, 2] \<and>
   map partId (meshes (fst (updatePartsFromRoot ex_tree))) = [Some 0, Some 1, Some 2]"
proof -
  have h: "length (meshes ex_tree) = 3" by (simp add: ex_tree_meshes)
  have u: "[0 ..< 3] = [0, 1, 2::nat]" by (simp add: upt_rec)
  from updatePartsFromRoot_dense_ids [OF h] have
    a: "map part_id (snd (updatePartsFromRoot ex_tree)) = [0 ..< 3]"
    and b: "map partId (meshes (fst (updatePartsFromRoot ex_tree))) = map Some [0 ..< 3]"
    by blast+
  from h show ?thesis unfolding a b u by simp
qed

text \<open>
  Claim C7.  Indexing the tree a second time, after the first run has stamped it and
  with nothing else touched, yields the same Part list (same ids, same order) and
  leaves every node with the part id the first run gave it.
\<close>

theorem updatePartsFromRoot_idempotent:
  "updatePartsFromRoot r = (r1, ps1) \<Longrightarrow> updatePartsFromRoot r1 = (r2, ps2) \<Longrightarrow>
     ps2 = ps1 \<and>
     map part_id ps2 = map part_id ps1 \<and>
     map partId (preorder r2) = map partId (preorder r1)"
proof -
  assume a: "updatePartsFromRoot r = (r1, ps1)" and b: "updatePartsFromRoot r1 = (r2, ps2)"
  from a updatePartsFromRoot_eq [of r] have
    p1: "ps1 = parts_from 0 (preorder r)" and o1: "preorder r1 = stamp_from 0 (preorder r)"
    by simp_all
  from b updatePartsFromRoot_eq [of r1] have
    p2: "ps2 = parts_from 0 (preorder r1)" and o2: "preorder r2 = stamp_from 0 (preorder r1)"
    by simp_all
  from p1 p2 o1 o2 show ?thesis
    by (simp add: parts_from_stamp_from partId_stamp_twice)
qed

lemma String_of_nat_digit: "n < 10 \<Longrightarrow> String_of_nat n = [digit_char n]"
  by (simp add: String_of_nat.simps)

lemma ex_tree_parts: "snd (updatePartsFromRoot ex_tree) = ex_parts"
  by (simp add: updatePartsFromRoot_eq ex_tree_def ex_obj_def new_part_def ex_parts_def
      getPartColor_def PART_COLORS_def String_of_nat_digit digit_char_def)

theorem updatePartsFromRoot_idempotent_witness:
  "updatePartsFromRoot ex_tree = (fst (updatePartsFromRoot ex_tree), ex_parts) \<and>
   snd (updatePartsFromRoot (fst (updatePartsFromRoot ex_tree))) = ex_parts"
proof -
  have a: "updatePartsFromRoot ex_tree = (fst (updatePartsFromRoot ex_tree), ex_parts)"
    using ex_tree_parts by (metis prod.collapse)
  have b: "updatePartsFromRoot (fst (updatePartsFromRoot ex_tree)) =
             (fst (updatePartsFromRoot (fst (updatePartsFromRoot ex_tree))),
              snd (updatePartsFromRoot (fst (updatePartsFromRoot ex_tree))))"
    by simp
  from updatePartsFromRoot_idempotent [OF a b] a show ?thesis by simp
qed

text \<open>
  Claim C8.  The part with id \<open>i\<close> of a freshly indexed list is named after its mesh
  when the mesh has a non-empty name and \<open>Parte (i+1)\<close> otherwise; its colour is entry
  \<open>i mod 8\<close> of the palette of 8 colours, its material preset is plastic and its notes
  are empty.
\<close>

theorem updatePartsFromRoot_defaults:
  "i < length (snd (updatePartsFromRoot r)) \<Longrightarrow>
     part_id (snd (updatePartsFromRoot r) ! i) = i \<and>
     part_name (snd (updatePartsFromRoot r) ! i) =
       (if o_name (meshes r ! i) \<noteq> [] then o_name (meshes r ! i)
        else ''Parte '' @ String_of_nat (i + 1)) \<and>
     part_color (snd (updatePartsFromRoot r) ! i) = PART_COLORS ! (i mod 8) \<and>
     length PART_COLORS = 8 \<and>
     part_materialPreset (snd (updatePartsFromRoot r) ! i) = ''plastic'' \<and>
     part_notes (snd (updatePartsFromRoot r) ! i) = []"
proof -
  let ?M = "length (meshes r)"
  assume i: "i < length (snd (updatePartsFromRoot r))"
  have zip: "snd (updatePartsFromRoot r) = map (\<lambda>(k, d). new_part k d) (zip [0 ..< ?M] (meshes r))"
    using parts_from_zip [of 0 "preorder r"]
    by (simp add: updatePartsFromRoot_eq meshes_def)
  from i zip have iM: "i < ?M" by simp
  from iM have nth: "snd (updatePartsFromRoot r) ! i = new_part i (meshes r ! i)"
    by (simp add: zip)
  show ?thesis
    unfolding nth by (simp add: new_part_def getPartColor_def PART_COLORS_def)
qed

theorem updatePartsFromRoot_defaults_witness:
  "(1::nat) < length (snd (updatePartsFromRoot ex_tree)) \<and>
   o_name (meshes ex_tree ! 1) = [] \<and>
   part_name (snd (updatePartsFromRoot ex_tree) ! 1) = ''Parte 2'' \<and>
   part_color (snd (updatePartsFromRoot ex_tree) ! 1) = ''#22c55e'' \<and>
   part_materialPreset (snd (updatePartsFromRoot ex_tree) ! 1) = ''plastic'' \<and>
   part_notes (snd (updatePartsFromRoot ex_tree) ! 1) = []"
proof -
  have h: "(1::nat) < length (snd (updatePartsFromRoot ex_tree))"
    by (simp add: ex_tree_parts ex_parts_def)
  have n: "o_name (meshes ex_tree ! 1) = []"
    by (simp add: ex_tree_meshes ex_obj_def)
  have s: "String_of_nat (1 + 1) = ''2''"
    by (simp add: String_of_nat_digit digit_char_def)
  from updatePartsFromRoot_defaults [OF h] h n s show ?thesis
    by (simp add: PART_COLORS_def)
qed

section \<open>Verification of the metadata reconciliation\<close>

lemma meta_for_eq: "meta_for meta i = meta (String_of_nat i)"
  by (simp add: meta_for_def split: option.splits)

lemma ex_reconciled:
  "applyProjectPartsMeta (Some ex_client_project) ex_parts =
     [ex_parts ! 0,
      \<lparr>part_id = 1, part_name = ''Parte 2'', part_visible = True, part_color = ''#ff0000'',
       part_materialPreset = ''plastic'', part_notes = ''revisar''\<rparr>,
      ex_parts ! 2]"
  by (simp add: applyProjectPartsMeta_def ex_client_project_def ex_parts_def meta_for_eq
      ex_meta_def ex_entry_def overlay_meta_def js_or_def String_of_nat_digit digit_char_def)

text \<open>
  Claim C3 as stated fails.  The entry saved under the key 1 has the field \<open>name\<close>,
  with the empty string as its value; the claim takes the name from the entry, the
  code keeps the part's own name \<open>Parte 2\<close>.
\<close>

theorem applyProjectPartsMeta_counterexample:
  "ex_meta ''1'' = Some ex_entry \<and> meta_name ex_entry = Some [] \<and>
   part_id (ex_parts ! 1) = 1 \<and> String_of_nat 1 = ''1'' \<and>
   part_name (applyProjectPartsMeta (Some ex_client_project) ex_parts ! 1) = ''Parte 2'' \<and>
   part_name (reconcile_spec ex_meta ex_parts ! 1) = [] \<and>
   applyProjectPartsMeta (Some ex_client_project) ex_parts \<noteq> reconcile_spec ex_meta ex_parts"
proof -
  have s: "part_name (reconcile_spec ex_meta ex_parts ! 1) = []"
    by (simp add: reconcile_spec_def ex_parts_def ex_meta_def ex_entry_def overlay_meta_spec_def
        String_of_nat_digit digit_char_def)
  have c: "part_name (applyProjectPartsMeta (Some ex_client_project) ex_parts ! 1) = ''Parte 2''"
    by (simp add: ex_reconciled)
  from s c have "applyProjectPartsMeta (Some ex_client_project) ex_parts \<noteq> reconcile_spec ex_meta ex_parts"
    by auto
  with s c show ?thesis
    by (simp add: ex_meta_def ex_entry_def ex_parts_def String_of_nat_digit digit_char_def)
qed

text \<open>
  Claim C3, amended.  The result has the length of the Part list.  A part without an
  entry under the string form of its id is returned unchanged, and so is the whole
  list when there is no project or no \<open>partsMeta\<close>.  A part with an entry keeps its id
  and visibility; its name is the entry's name when that is present and not empty,
  else its own name; its notes are the entry's notes whenever the entry has notes,
  else its own; its colour and its material preset are the entry's when present and
  not empty, else its own when not empty, else \<open>#22c55e\<close> and \<open>plastic\<close>.
\<close>

theorem applyProjectPartsMeta_overlay:
  "applyProjectPartsMeta None ps = ps \<and>
   (cp_partsMeta pr = None \<longrightarrow> applyProjectPartsMeta (Some pr) ps = ps) \<and>
   (cp_partsMeta pr = Some meta \<longrightarrow>
      length (applyProjectPartsMeta (Some pr) ps) = length ps \<and>
      (\<forall>i < length ps.
         (meta (String_of_nat (part_id (ps ! i))) = None \<longrightarrow>
            applyProjectPartsMeta (Some pr) ps ! i = ps ! i) \<and>
         (\<forall>m. meta (String_of_nat (part_id (ps ! i))) = Some m \<longrightarrow>
            part_id (applyProjectPartsMeta (Some pr) ps ! i) = part_id (ps ! i) \<and>
            part_visible (applyProjectPartsMeta (Some pr) ps ! i) = part_visible (ps ! i) \<and>
            part_name (applyProjectPartsMeta (Some pr) ps ! i) =
              (case meta_name m of
                 None \<Rightarrow> part_name (ps ! i)
               | Some v \<Rightarrow> if v \<noteq> [] then v else part_name (ps ! i)) \<and>
            part_notes (applyProjectPartsMeta (Some pr) ps ! i) =
              (case meta_notes m of None \<Rightarrow> part_notes (ps ! i) | Some v \<Rightarrow> v) \<and>
            part_color (applyProjectPartsMeta (Some pr) ps ! i) =
              (let own = (if part_color (ps ! i) \<noteq> [] then part_color (ps ! i)
                          else ''#22c55e'')
               in case meta_color m of
                    None \<Rightarrow> own
                  | Some v \<Rightarrow> if v \<noteq> [] then v else own) \<and>
            part_materialPreset (applyProjectPartsMeta (Some pr) ps ! i) =
              (let own = (if part_materialPreset (ps ! i) \<noteq> [] then part_materialPreset (ps ! i)
                          else ''plastic'')
               in case meta_materialPreset m of
                    None \<Rightarrow> own
                  | Some v \<Rightarrow> if v \<noteq> [] then v else own))))"
proof (intro conjI impI allI)
  show "applyProjectPartsMeta None ps = ps"
    by (simp add: applyProjectPartsMeta_def)
next
  assume "cp_partsMeta pr = None"
  then show "applyProjectPartsMeta (Some pr) ps = ps"
    by (simp add: applyProjectPartsMeta_def)
next
  assume "cp_partsMeta pr = Some meta"
  then show "length (applyProjectPartsMeta (Some pr) ps) = length ps"
    by (simp add: applyProjectPartsMeta_def)
next
  fix i
  assume pm: "cp_partsMeta pr = Some meta" and i: "i < length ps"
  have nth: "applyProjectPartsMeta (Some pr) ps ! i =
      (case meta (String_of_nat (part_id (ps ! i))) of None \<Rightarrow> ps ! i
       | Some m \<Rightarrow> overlay_meta m (ps ! i))"
    using pm i by (simp add: applyProjectPartsMeta_def meta_for_eq)
  {
    assume "meta (String_of_nat (part_id (ps ! i))) = None"
    then show "applyProjectPartsMeta (Some pr) ps ! i = ps ! i"
      by (simp add: nth)
  }
  fix m
  assume m: "meta (String_of_nat (part_id (ps ! i))) = Some m"
  have q: "applyProjectPartsMeta (Some pr) ps ! i = overlay_meta m (ps ! i)"
    by (simp add: nth m)
  show "part_id (applyProjectPartsMeta (Some pr) ps ! i) = part_id (ps ! i)"
    by (simp add: q overlay_meta_def)
  show "part_visible (applyProjectPartsMeta (Some pr) ps ! i) = part_visible (ps ! i)"
    by (simp add: q overlay_meta_def)
  show "part_name (applyProjectPartsMeta (Some pr) ps ! i) =
          (case meta_name m of
             None \<Rightarrow> part_name (ps ! i)
           | Some v \<Rightarrow> if v \<noteq> [] then v else part_name (ps ! i))"
    by (simp add: q overlay_meta_def js_or_def split: option.splits)
  show "part_notes (applyProjectPartsMeta (Some pr) ps ! i) =
          (case meta_notes m of None \<Rightarrow> part_notes (ps ! i) | Some v \<Rightarrow> v)"
    by (simp add: q overlay_meta_def js_or_def split: option.splits)
  show "part_color (applyProjectPartsMeta (Some pr) ps ! i) =
          (let own = (if part_color (ps ! i) \<noteq> [] then part_color (ps ! i)
                      else ''#22c55e'')
           in case meta_color m of
                None \<Rightarrow> own
              | Some v \<Rightarrow> if v \<noteq> [] then v else own)"
    by (simp add: q overlay_meta_def js_or_def split: option.splits)
  show "part_materialPreset (applyProjectPartsMeta (Some pr) ps ! i) =
          (let own = (if part_materialPreset (ps ! i) \<noteq> [] then part_materialPreset (ps ! i)
                      else ''plastic'')
           in case meta_materialPreset m of
                None \<Rightarrow> own
              | Some v \<Rightarrow> if v \<noteq> [] then v else own)"
    by (simp add: q overlay_meta_def js_or_def split: option.splits)
qed

theorem applyProjectPartsMeta_overlay_witness:
  "cp_partsMeta ex_client_project = Some ex_meta \<and>
   cp_partsMeta (ex_client_project\<lparr>cp_partsMeta := None\<rparr>) = None \<and>
   (1::nat) < length ex_parts \<and>
   ex_meta (String_of_nat (part_id (ex_parts ! 1))) = Some ex_entry \<and>
   ex_meta (String_of_nat (part_id (ex_parts ! 0))) = None \<and>
   applyProjectPartsMeta (Some (ex_client_project\<lparr>cp_partsMeta := None\<rparr>)) ex_parts = ex_parts \<and>
   length (applyProjectPartsMeta (Some ex_client_project) ex_parts) = 3 \<and>
   applyProjectPartsMeta (Some ex_client_project) ex_parts ! 0 = ex_parts ! 0 \<and>
   part_name (applyProjectPartsMeta (Some ex_client_project) ex_parts ! 1) = ''Parte 2'' \<and>
   part_notes (applyProjectPartsMeta (Some ex_client_project) ex_parts ! 1) = ''revisar'' \<and>
   part_color (applyProjectPartsMeta (Some ex_client_project) ex_parts ! 1) = ''#ff0000'' \<and>
   part_materialPreset (applyProjectPartsMeta (Some ex_client_project) ex_parts ! 1) = ''plastic''"
proof -
  have pm: "cp_partsMeta ex_client_project = Some ex_meta"
    by (simp add: ex_client_project_def)
  have pn: "cp_partsMeta (ex_client_project\<lparr>cp_partsMeta := None\<rparr>) = None"
    by simp
  have l: "length ex_parts = 3" and i1: "(1::nat) < length ex_parts" and i0: "(0::nat) < length ex_parts"
    by (simp_all add: ex_parts_def)
  have e1: "ex_meta (String_of_nat (part_id (ex_parts ! 1))) = Some ex_entry"
    by (simp add: ex_parts_def ex_meta_def String_of_nat_digit digit_char_def)
  have e0: "ex_meta (String_of_nat (part_id (ex_parts ! 0))) = None"
    by (simp add: ex_parts_def ex_meta_def String_of_nat_digit digit_char_def)
  note none = applyProjectPartsMeta_overlay [of ex_parts "ex_client_project\<lparr>cp_partsMeta := None\<rparr>" ex_meta]
  note some = applyProjectPartsMeta_overlay [of ex_parts ex_client_project ex_meta]
  from none pn have r0: "applyProjectPartsMeta (Some (ex_client_project\<lparr>cp_partsMeta := None\<rparr>)) ex_parts = ex_parts"
    by blast
  from some pm have len: "length (applyProjectPartsMeta (Some ex_client_project) ex_parts) = length ex_parts"
    by blast
  from some pm i0 e0 have p0: "applyProjectPartsMeta (Some ex_client_project) ex_parts ! 0 = ex_parts ! 0"
    by blast
  from some pm i1 e1 have
    "part_name (applyProjectPartsMeta (Some ex_client_project) ex_parts ! 1) =
       (case meta_name ex_entry of
          None \<Rightarrow> part_name (ex_parts ! 1)
        | Some v \<Rightarrow> if v \<noteq> [] then v else part_name (ex_parts ! 1))"
    and "part_notes (applyProjectPartsMeta (Some ex_client_project) ex_parts ! 1) =
       (case meta_notes ex_entry of None \<Rightarrow> part_notes (ex_parts ! 1) | Some v \<Rightarrow> v)"
    and "part_color (applyProjectPartsMeta (Some ex_client_project) ex_parts ! 1) =
       (let own = (if part_color (ex_parts ! 1) \<noteq> [] then part_color (ex_parts ! 1)
                   else ''#22c55e'')
        in case meta_color ex_entry of
             None \<Rightarrow> own
           | Some v \<Rightarrow> if v \<noteq> [] then v else own)"
    and "part_materialPreset (applyProjectPartsMeta (Some ex_client_project) ex_parts ! 1) =
       (let own = (if part_materialPreset (ex_parts ! 1) \<noteq> [] then part_materialPreset (ex_parts ! 1)
                   else ''plastic'')
        in case meta_materialPreset ex_entry of
             None \<Rightarrow> own
           | Some v \<Rightarrow> if v \<noteq> [] then v else own)"
    by blast+
  then have p1:
    "part_name (applyProjectPartsMeta (Some ex_client_project) ex_parts ! 1) = ''Parte 2''"
    "part_notes (applyProjectPartsMeta (Some ex_client_project) ex_parts ! 1) = ''revisar''"
    "part_color (applyProjectPartsMeta (Some ex_client_project) ex_parts ! 1) = ''#ff0000''"
    "part_materialPreset (applyProjectPartsMeta (Some ex_client_project) ex_parts ! 1) = ''plastic''"
    by (simp_all add: ex_entry_def ex_parts_def)
  from pm pn i1 e1 e0 r0 len l p0 p1 show ?thesis
    by simp
qed

section \<open>Verification of the load sequence\<close>

lemma ex_ext: "toLowerCase (last_segment ''a.obj'') = ''obj''" "toLowerCase (last_segment ''b.stl'') = ''stl''"
  by (simp_all add: toLowerCase_def last_segment_def to_lower_char_def)

lemma ex_started:
  "run ex_session [ex_start_A, ex_start_B] =
     \<lparr>view = ex_viewer\<lparr>modelName := ''b.stl'', modelType := ''stl'', objectUrl := Some ''blob:b''\<rparr>,
      inflight = [\<lparr>ld_loader = OBJ, ld_url = ''blob:a'', ld_onLoaded = None\<rparr>,
                  \<lparr>ld_loader = STL, ld_url = ''blob:b'', ld_onLoaded = None\<rparr>]\<rparr>"
  by (simp add: run_def ex_start_A_def ex_start_B_def handleFileChange_def ex_ext start_load_def
      loader_for_def ex_session_def ex_viewer_def Let_def)

lemma on_load_root:
  assumes "loaded_root (ld_loader ld) pl = Some (Some r)"
  shows "modelRef (on_load ld pl v) = Some (fst (updatePartsFromRoot r))"
    and "parts (on_load ld pl v) =
           applyProjectPartsMeta (ld_onLoaded ld) (snd (updatePartsFromRoot r))"
  using assms
  by (simp_all add: on_load_def addRootToScene_def applyTransformAndMeta_def Let_def
      applyProjectPartsMeta_def split: prod.splits option.splits)

lemma step_Loaded:
  assumes "k < length (inflight s)"
    and "loaded_root (ld_loader (inflight s ! k)) pl = Some (Some r)"
  shows "modelRef (view (step s (Loaded k pl))) = Some (fst (updatePartsFromRoot r))"
    and "parts (view (step s (Loaded k pl))) =
           applyProjectPartsMeta (ld_onLoaded (inflight s ! k)) (snd (updatePartsFromRoot r))"
    and "inflight (step s (Loaded k pl)) = drop_nth k (inflight s)"
  using assms by (simp_all add: on_load_root)

text \<open>
  Claim C1, amended.  A completion callback applies its result whenever it runs: after
  the completion of any load in flight that delivers a root, the active root is this
  root, indexed, and the Part list is the one indexed from it (with the saved metadata
  of the project overlaid for a project load), whatever loads were started or completed
  in between.  The last completion wins; nothing suppresses a superseded load.
\<close>

theorem stale_completion_applied:
  "k < length (inflight s) \<Longrightarrow>
   loaded_root (ld_loader (inflight s ! k)) pl = Some (Some r) \<Longrightarrow>
     modelRef (view (step s (Loaded k pl))) = Some (fst (updatePartsFromRoot r)) \<and>
     parts (view (step s (Loaded k pl))) =
       applyProjectPartsMeta (ld_onLoaded (inflight s ! k)) (snd (updatePartsFromRoot r))"
  by (simp add: on_load_root)

lemma run_snoc: "run s (es @ [e]) = step (run s es) e"
  by (simp add: run_def)

lemma ex_after_B:
  "modelRef (view (run ex_session [ex_start_A, ex_start_B, ex_done_B])) =
     Some (fst (updatePartsFromRoot (new_mesh ex_geometry)))"
  "parts (view (run ex_session [ex_start_A, ex_start_B, ex_done_B])) =
     snd (updatePartsFromRoot (new_mesh ex_geometry))"
  "inflight (run ex_session [ex_start_A, ex_start_B, ex_done_B]) =
     [\<lparr>ld_loader = OBJ, ld_url = ''blob:a'', ld_onLoaded = None\<rparr>]"
proof -
  have r: "run ex_session [ex_start_A, ex_start_B, ex_done_B] =
        step (run ex_session [ex_start_A, ex_start_B]) (Loaded 1 (Geometry ex_geometry))"
    using run_snoc [of ex_session "[ex_start_A, ex_start_B]" ex_done_B]
    by (simp add: ex_done_B_def)
  have k: "1 < length (inflight (run ex_session [ex_start_A, ex_start_B]))"
    by (simp add: ex_started)
  have l: "loaded_root (ld_loader (inflight (run ex_session [ex_start_A, ex_start_B]) ! 1))
             (Geometry ex_geometry) = Some (Some (new_mesh ex_geometry))"
    by (simp add: ex_started)
  from step_Loaded [OF k l]
  show "modelRef (view (run ex_session [ex_start_A, ex_start_B, ex_done_B])) =
     Some (fst (updatePartsFromRoot (new_mesh ex_geometry)))"
  "parts (view (run ex_session [ex_start_A, ex_start_B, ex_done_B])) =
     snd (updatePartsFromRoot (new_mesh ex_geometry))"
  "inflight (run ex_session [ex_start_A, ex_start_B, ex_done_B]) =
     [\<lparr>ld_loader = OBJ, ld_url = ''blob:a'', ld_onLoaded = None\<rparr>]"
    by (simp_all add: r ex_started applyProjectPartsMeta_def drop_nth_def)
qed

lemma ex_after_A:
  "modelRef (view (run ex_session [ex_start_A, ex_start_B, ex_done_B, ex_done_A])) =
     Some (fst (updatePartsFromRoot ex_tree))"
  "parts (view (run ex_session [ex_start_A, ex_start_B, ex_done_B, ex_done_A])) =
     snd (updatePartsFromRoot ex_tree)"
proof -
  have r: "run ex_session [ex_start_A, ex_start_B, ex_done_B, ex_done_A] =
        step (run ex_session [ex_start_A, ex_start_B, ex_done_B]) (Loaded 0 (Object ex_tree))"
    using run_snoc [of ex_session "[ex_start_A, ex_start_B, ex_done_B]" ex_done_A]
    by (simp add: ex_done_A_def)
  have k: "0 < length (inflight (run ex_session [ex_start_A, ex_start_B, ex_done_B]))"
    by (simp add: ex_after_B)
  have l: "loaded_root (ld_loader (inflight (run ex_session [ex_start_A, ex_start_B, ex_done_B]) ! 0))
             (Object ex_tree) = Some (Some ex_tree)"
    by (simp add: ex_after_B)
  from step_Loaded [OF k l]
  show "modelRef (view (run ex_session [ex_start_A, ex_start_B, ex_done_B, ex_done_A])) =
     Some (fst (updatePartsFromRoot ex_tree))"
  "parts (view (run ex_session [ex_start_A, ex_start_B, ex_done_B, ex_done_A])) =
     snd (updatePartsFromRoot ex_tree)"
    by (simp_all add: r ex_after_B applyProjectPartsMeta_def)
qed

lemma ex_mesh_parts: "length (snd (updatePartsFromRoot (new_mesh ex_geometry))) = 1"
  by (simp add: updatePartsFromRoot_eq new_mesh_def)

lemma ex_roots_differ:
  "fst (updatePartsFromRoot ex_tree) \<noteq> fst (updatePartsFromRoot (new_mesh ex_geometry))"
proof
  assume "fst (updatePartsFromRoot ex_tree) = fst (updatePartsFromRoot (new_mesh ex_geometry))"
  then have "length (preorder (fst (updatePartsFromRoot ex_tree))) =
             length (preorder (fst (updatePartsFromRoot (new_mesh ex_geometry))))"
    by simp
  then show False
    by (simp add: updatePartsFromRoot_eq ex_tree_def ex_obj_def new_mesh_def)
qed

text \<open>
  Claim C1 as stated fails.  Load A (a local OBJ file) is started, load B (a local STL
  file) is started before A completes, B completes first, and A completes afterwards.
  The completion of A replaces the active root and the Part list that the completion
  of B had established by those of A.
\<close>

theorem load_supersession_counterexample:
  "inflight (run ex_session [ex_start_A, ex_start_B]) =
     [\<lparr>ld_loader = OBJ, ld_url = ''blob:a'', ld_onLoaded = None\<rparr>,
      \<lparr>ld_loader = STL, ld_url = ''blob:b'', ld_onLoaded = None\<rparr>] \<and>
   modelRef (view (run ex_session [ex_start_A, ex_start_B, ex_done_B, ex_done_A])) \<noteq>
   modelRef (view (run ex_session [ex_start_A, ex_start_B, ex_done_B])) \<and>
   parts (view (run ex_session [ex_start_A, ex_start_B, ex_done_B, ex_done_A])) \<noteq>
   parts (view (run ex_session [ex_start_A, ex_start_B, ex_done_B])) \<and>
   modelRef (view (run ex_session [ex_start_A, ex_start_B, ex_done_B, ex_done_A])) =
     Some (fst (updatePartsFromRoot ex_tree)) \<and>
   parts (view (run ex_session [ex_start_A, ex_start_B, ex_done_B, ex_done_A])) = ex_parts"
proof -
  have "length (snd (updatePartsFromRoot ex_tree)) = 3"
    by (simp add: ex_tree_parts ex_parts_def)
  with ex_mesh_parts
  have "snd (updatePartsFromRoot ex_tree) \<noteq> snd (updatePartsFromRoot (new_mesh ex_geometry))"
    by auto
  then show ?thesis
    using ex_roots_differ
    by (simp add: ex_started ex_after_A ex_after_B ex_tree_parts)
qed

theorem stale_completion_applied_witness:
  "0 < length (inflight (run ex_session [ex_start_A, ex_start_B, ex_done_B])) \<and>
   loaded_root (ld_loader (inflight (run ex_session [ex_start_A, ex_start_B, ex_done_B]) ! 0))
     (Object ex_tree) = Some (Some ex_tree) \<and>
   modelRef (view (step (run ex_session [ex_start_A, ex_start_B, ex_done_B]) (Loaded 0 (Object ex_tree)))) =
     Some (fst (updatePartsFromRoot ex_tree)) \<and>
   parts (view (step (run ex_session [ex_start_A, ex_start_B, ex_done_B]) (Loaded 0 (Object ex_tree)))) =
     ex_parts"
proof -
  have k: "0 < length (inflight (run ex_session [ex_start_A, ex_start_B, ex_done_B]))"
    by (simp add: ex_after_B)
  have l: "loaded_root (ld_loader (inflight (run ex_session [ex_start_A, ex_start_B, ex_done_B]) ! 0))
             (Object ex_tree) = Some (Some ex_tree)"
    by (simp add: ex_after_B)
  from stale_completion_applied [OF k l] k l show ?thesis
    by (simp add: ex_after_B applyProjectPartsMeta_def ex_tree_parts)
qed

section \<open>Verification of the project server\<close>

lemma ex_model_file_name: "model_file_name ''nuevo.OBJ'' = ''modelo.obj''"
  by (simp add: model_file_name_def extname_def last_segment_def toLowerCase_def to_lower_char_def)

lemma ex_find: "findProject ex_db ''1'' = Some ex_project" "findProject ex_db ''7'' = None"
  by (simp_all add: findProject_def ex_db_def same_id_def ex_project_def String_of_nat_digit
      digit_char_def)

text \<open>
  Claim C2 at the replace-model endpoint.  The store holds project 1 with the model
  file \<open>modelo.stl\<close>.  A request \<open>PUT /api/projects/1/model\<close> that carries a file and
  no password is answered with status 200, and the stored record now names
  \<open>modelo.obj\<close>: the handler asks for no password, while the claim requires a
  non-success status and an unchanged record.
\<close>

theorem put_model_without_password:
  "put_model ex_db ''1'' (Some ex_upload) None = (success, [ex_project\<lparr>modelFile := ''modelo.obj''\<rparr>]) \<and>
   status success = 200 \<and>
   modelFile ex_project = ''modelo.stl'' \<and>
   [ex_project\<lparr>modelFile := ''modelo.obj''\<rparr>] \<noteq> ex_db"
proof -
  have a: "put_model ex_db ''1'' (Some ex_upload) None =
             (success, [ex_project\<lparr>modelFile := ''modelo.obj''\<rparr>])"
    by (simp add: put_model_def ex_find ex_upload_def ex_model_file_name)
       (simp add: ex_db_def same_id_def ex_project_def String_of_nat_digit digit_char_def)
  have b: "modelFile ex_project = ''modelo.stl''"
    by (simp add: ex_project_def)
  have c: "[ex_project\<lparr>modelFile := ''modelo.obj''\<rparr>] \<noteq> ex_db"
  proof
    assume "[ex_project\<lparr>modelFile := ''modelo.obj''\<rparr>] = ex_db"
    then have "modelFile (ex_project\<lparr>modelFile := ''modelo.obj''\<rparr>) = modelFile ex_project"
      by (simp add: ex_db_def)
    with b show False by simp
  qed
  from a b c show ?thesis by (simp add: success_def)
qed

text \<open>
  Claim C6.  \<open>PUT /api/projects/:id/transform\<close>, with the checks in the order of the
  handler: a missing password (no body, no field, or the empty string) yields 400; with
  a password, an id that matches no project yields 404; with a password and a project,
  a password whose hash differs from the stored hash yields 403.  Whenever the status
  is not 200, the store is exactly as before, and so are the position and the
  rotation of every project.
\<close>

theorem put_transform_errors:
  "put_transform H db rid None = (failure 400, db) \<and>
   (\<not> truthy (t_password b) \<longrightarrow> put_transform H db rid (Some b) = (failure 400, db)) \<and>
   (t_password b = Some pw \<and> pw \<noteq> [] \<and> findProject db rid = None \<longrightarrow>
      put_transform H db rid (Some b) = (failure 404, db)) \<and>
   (t_password b = Some pw \<and> pw \<noteq> [] \<and> findProject db rid = Some p \<and> H pw \<noteq> passwordHash p \<longrightarrow>
      put_transform H db rid (Some b) = (failure 403, db)) \<and>
   (status (fst (put_transform H db rid body)) \<noteq> 200 \<longrightarrow>
      snd (put_transform H db rid body) = db \<and>
      map proj_position (snd (put_transform H db rid body)) = map proj_position db \<and>
      map proj_rotation (snd (put_transform H db rid body)) = map proj_rotation db) \<and>
   status (failure 400) = 400 \<and> status (failure 403) = 403 \<and> status (failure 404) = 404"
proof -
  have outcome:
    "put_transform H db rid body = (failure 400, db) \<or>
     put_transform H db rid body = (failure 404, db) \<or>
     put_transform H db rid body = (failure 403, db) \<or>
     fst (put_transform H db rid body) = success"
    by (cases "findProject db rid") (simp_all add: put_transform_def Let_def)
  have unchanged: "status (fst (put_transform H db rid body)) \<noteq> 200 \<Longrightarrow>
      snd (put_transform H db rid body) = db"
    using outcome by (auto simp: success_def)
  show ?thesis
    using unchanged
    by (simp add: put_transform_def truthy_def js_or_def failure_def)
qed

theorem put_transform_errors_witness:
  "\<not> truthy (t_password (ex_move None)) \<and>
   put_transform ex_hash ex_db ''1'' (Some (ex_move None)) = (failure 400, ex_db) \<and>
   findProject ex_db ''7'' = None \<and>
   put_transform ex_hash ex_db ''7'' (Some (ex_move (Some ''abc123''))) = (failure 404, ex_db) \<and>
   findProject ex_db ''1'' = Some ex_project \<and>
   ex_hash ''wrong'' \<noteq> passwordHash ex_project \<and>
   put_transform ex_hash ex_db ''1'' (Some (ex_move (Some ''wrong''))) = (failure 403, ex_db) \<and>
   status (fst (put_transform ex_hash ex_db ''1'' (Some (ex_move (Some ''wrong''))))) \<noteq> 200 \<and>
   map proj_position (snd (put_transform ex_hash ex_db ''1'' (Some (ex_move (Some ''wrong''))))) =
     [origin]"
proof -
  have m: "\<not> truthy (t_password (ex_move None))"
    by (simp add: ex_move_def truthy_def)
  have w: "t_password (ex_move (Some ''wrong'')) = Some ''wrong''"
    and g: "t_password (ex_move (Some ''abc123'')) = Some ''abc123''"
    by (simp_all add: ex_move_def)
  have h: "ex_hash ''wrong'' \<noteq> passwordHash ex_project"
    by (simp add: ex_hash_def ex_project_def)
  note t400 = put_transform_errors [of ex_hash ex_db "''1''" "ex_move None"]
  note t404 = put_transform_errors [of ex_hash ex_db "''7''" "ex_move (Some ''abc123'')" "''abc123''"]
  note t403 = put_transform_errors [of ex_hash ex_db "''1''" "ex_move (Some ''wrong'')" "''wrong''"
      ex_project "Some (ex_move (Some ''wrong''))"]
  from t400 m have r400: "put_transform ex_hash ex_db ''1'' (Some (ex_move None)) = (failure 400, ex_db)"
    by blast
  from t404 g ex_find(2)
  have r404: "put_transform ex_hash ex_db ''7'' (Some (ex_move (Some ''abc123''))) = (failure 404, ex_db)"
    by simp
  from t403 w ex_find(1) h
  have r403: "put_transform ex_hash ex_db ''1'' (Some (ex_move (Some ''wrong''))) = (failure 403, ex_db)"
    by simp
  have s: "status (fst (put_transform ex_hash ex_db ''1'' (Some (ex_move (Some ''wrong''))))) \<noteq> 200"
    by (simp add: r403 failure_def)
  from t403 s
  have p: "map proj_position (snd (put_transform ex_hash ex_db ''1'' (Some (ex_move (Some ''wrong''))))) =
             map proj_position ex_db"
    by blast
  from m r400 r404 r403 h s p ex_find show ?thesis
    by (simp add: ex_db_def ex_project_def)
qed

section \<open>Verification of project ids and part metadata (server)\<close>

lemma Math_max_Max: "xs \<noteq> [] \<Longrightarrow> Math_max xs = Max (set xs)"
proof (cases xs)
  case Nil
  assume "xs \<noteq> []"
  with Nil show ?thesis by simp
next
  case (Cons a as)
  with Max.set_eq_fold [of a as] show ?thesis by simp
qed

lemma distinct_drop_nth: "distinct xs \<Longrightarrow> distinct (drop_nth k xs)"
  by (simp add: drop_nth_def set_take_disj_set_drop_if_distinct)

lemma map_drop_nth: "map f (drop_nth k xs) = drop_nth k (map f xs)"
  by (simp add: drop_nth_def take_map drop_map)

lemma spacing_exact: "n < 9007199254740992 \<Longrightarrow> spacing n = 1"
  by (simp add: spacing.simps)

lemma round_double_exact: "n \<le> 9007199254740992 \<Longrightarrow> round_double n = n"
proof (cases "n < 9007199254740992")
  case True
  then show ?thesis by (simp add: round_double_def spacing_exact)
next
  case False
  assume "n \<le> 9007199254740992"
  with False have n: "n = 9007199254740992" by simp
  have "spacing 9007199254740992 = 2"
    by (simp add: spacing.simps [of 9007199254740992] spacing_exact)
  then show ?thesis by (simp add: n round_double_def)
qed

lemma round_double_tie: "round_double 9007199254740993 = 9007199254740992"
proof -
  have "spacing 9007199254740993 = 2"
    by (simp add: spacing.simps [of 9007199254740993] spacing_exact)
  then show ?thesis by (simp add: round_double_def)
qed

lemma post_project_outcome:
  "post_project H db upl body = (failure 400, db) \<or>
   (\<exists>np. post_project H db upl body =
            (\<lparr>status = 200, ok = True, projectId = Some (proj_id np)\<rparr>, db @ [np]) \<and>
          proj_id np = (if db = [] then 1 else round_double (Max (proj_id ` set db) + 1)))"
  by (cases upl) (auto simp: post_project_def Let_def Math_max_Max)

lemma delete_project_outcome:
  "snd (delete_project H db rid pw) = db \<or>
   (\<exists>k. snd (delete_project H db rid pw) = drop_nth k db)"
  by (auto simp: delete_project_def split: option.splits)

lemma ex_post_big:
  "fst (post_project ex_hash ex_db_big (Some ex_upload) ex_create) =
     \<lparr>status = 200, ok = True, projectId = Some 9007199254740992\<rparr>"
  "map proj_id (snd (post_project ex_hash ex_db_big (Some ex_upload) ex_create)) =
     [9007199254740992, 9007199254740992]"
  by (simp_all add: post_project_def Let_def truthy_def ex_create_def ex_db_big_def
      round_double_tie)

text \<open>
  Claim C9 as stated fails at the limit of exact integer arithmetic.  The store holds
  one project, with the id \<open>2^53\<close>; its ids are pairwise distinct.  A successful
  \<open>POST /api/projects\<close> computes \<open>2^53 + 1\<close> in doubles, which is \<open>2^53\<close> again: the new
  project gets the id of the existing one, and the ids are no longer distinct.
\<close>

theorem project_id_repeats_counterexample:
  "distinct (map proj_id ex_db_big) \<and>
   status (fst (post_project ex_hash ex_db_big (Some ex_upload) ex_create)) = 200 \<and>
   projectId (fst (post_project ex_hash ex_db_big (Some ex_upload) ex_create)) =
     Some 9007199254740992 \<and>
   map proj_id (snd (post_project ex_hash ex_db_big (Some ex_upload) ex_create)) =
     [9007199254740992, 9007199254740992] \<and>
   \<not> distinct (map proj_id (snd (post_project ex_hash ex_db_big (Some ex_upload) ex_create)))"
proof -
  have d: "distinct (map proj_id ex_db_big)"
    by (simp add: ex_db_big_def)
  show ?thesis
    unfolding ex_post_big using d by simp
qed

text \<open>
  Claim C9, amended.  In a store whose project ids are pairwise distinct and all
  below \<open>2^53\<close>, a successful \<open>POST /api/projects\<close> gives the new project the id 1 when
  the store is empty and 1 plus the greatest existing id otherwise; this id is
  greater than every existing id, the new project is appended, and the ids stay
  pairwise distinct after every create request, successful or not.  A delete request,
  successful or not, keeps the ids of every store pairwise distinct.
\<close>

theorem safe_project_ids_stay_distinct:
  "distinct (map proj_id db) \<Longrightarrow>
     ((\<forall>p \<in> set db. proj_id p < 9007199254740992) \<longrightarrow>
        (status (fst (post_project H db upl body)) = 200 \<longrightarrow>
           projectId (fst (post_project H db upl body)) =
             Some (if db = [] then 1 else Max (proj_id ` set db) + 1) \<and>
           (\<forall>p \<in> set db. proj_id p < (if db = [] then 1 else Max (proj_id ` set db) + 1)) \<and>
           map proj_id (snd (post_project H db upl body)) =
             map proj_id db @ [if db = [] then 1 else Max (proj_id ` set db) + 1]) \<and>
        distinct (map proj_id (snd (post_project H db upl body)))) \<and>
     distinct (map proj_id (snd (delete_project H db rid pw)))"
proof (intro conjI impI)
  assume d: "distinct (map proj_id db)"
  show "distinct (map proj_id (snd (delete_project H db rid pw)))"
    using delete_project_outcome [of H db rid pw] d
    by (auto simp: map_drop_nth distinct_drop_nth)
next
  assume d: "distinct (map proj_id db)"
    and safe: "\<forall>p \<in> set db. proj_id p < 9007199254740992"
  let ?n = "if db = [] then 1 else Max (proj_id ` set db) + 1"
  have fresh: "\<forall>p \<in> set db. proj_id p < ?n"
  proof
    fix p assume p: "p \<in> set db"
    then have "db \<noteq> []" by auto
    moreover from p have "proj_id p \<le> Max (proj_id ` set db)" by simp
    ultimately show "proj_id p < ?n" by simp
  qed
  then have notin: "?n \<notin> proj_id ` set db" by auto
  have exact: "(if db = [] then 1 else round_double (Max (proj_id ` set db) + 1)) = ?n"
  proof (cases "db = []")
    case True
    then show ?thesis by simp
  next
    case False
    then have "Max (proj_id ` set db) \<in> proj_id ` set db"
      by (intro Max_in) auto
    with safe have "Max (proj_id ` set db) < 9007199254740992" by auto
    then have "round_double (Max (proj_id ` set db) + 1) = Max (proj_id ` set db) + 1"
      by (intro round_double_exact) simp
    with False show ?thesis by simp
  qed
  have post:
    "(status (fst (post_project H db upl body)) = 200 \<longrightarrow>
        projectId (fst (post_project H db upl body)) = Some ?n \<and>
        map proj_id (snd (post_project H db upl body)) = map proj_id db @ [?n]) \<and>
     distinct (map proj_id (snd (post_project H db upl body)))"
    using post_project_outcome [of H db upl body]
  proof
    assume "post_project H db upl body = (failure 400, db)"
    with d show ?thesis by (simp add: failure_def)
  next
    assume "\<exists>np. post_project H db upl body =
            (\<lparr>status = 200, ok = True, projectId = Some (proj_id np)\<rparr>, db @ [np]) \<and>
          proj_id np = (if db = [] then 1 else round_double (Max (proj_id ` set db) + 1))"
    then obtain np where
      r: "post_project H db upl body =
            (\<lparr>status = 200, ok = True, projectId = Some (proj_id np)\<rparr>, db @ [np])"
      and n: "proj_id np = ?n"
      unfolding exact by blast
    from d notin n have "distinct (map proj_id (db @ [np]))" by auto
    with r n show ?thesis by simp
  qed
  from post show "distinct (map proj_id (snd (post_project H db upl body)))"
    by blast
  assume s: "status (fst (post_project H db upl body)) = 200"
  from post s show "projectId (fst (post_project H db upl body)) = Some ?n"
    by blast
  from post s show "map proj_id (snd (post_project H db upl body)) = map proj_id db @ [?n]"
    by blast
  from fresh show "\<forall>p \<in> set db. proj_id p < ?n" .
qed

lemma ex_delete: "delete_project ex_hash ex_db ''1'' (Some ''abc123'') = (success, [])"
  by (simp add: delete_project_def truthy_def js_or_def ex_db_def same_id_def ex_project_def
      String_of_nat_digit digit_char_def drop_nth_def)

theorem safe_project_ids_stay_distinct_witness:
  "distinct (map proj_id ex_db) \<and>
   map proj_id ex_db = [1] \<and> (1::nat) < 9007199254740992 \<and>
   status (fst (post_project ex_hash ex_db (Some ex_upload) ex_create)) = 200 \<and>
   projectId (fst (post_project ex_hash ex_db (Some ex_upload) ex_create)) = Some 2 \<and>
   map proj_id (snd (post_project ex_hash ex_db (Some ex_upload) ex_create)) = [1, 2] \<and>
   distinct (map proj_id (snd (post_project ex_hash ex_db (Some ex_upload) ex_create))) \<and>
   snd (delete_project ex_hash ex_db ''1'' (Some ''abc123'')) = [] \<and>
   distinct (map proj_id (snd (delete_project ex_hash ex_db ''1'' (Some ''abc123''))))"
proof -
  have d: "distinct (map proj_id ex_db)"
    by (simp add: ex_db_def)
  have b: "\<forall>p \<in> set ex_db. proj_id p < 9007199254740992"
    by (simp add: ex_db_def ex_project_def)
  have s: "status (fst (post_project ex_hash ex_db (Some ex_upload) ex_create)) = 200"
    by (simp add: post_project_def Let_def truthy_def ex_create_def)
  have n: "(if ex_db = [] then 1 else Max (proj_id ` set ex_db) + 1) = 2"
    by (simp add: ex_db_def ex_project_def)
  have m: "map proj_id ex_db = [1]"
    by (simp add: ex_db_def ex_project_def)
  note t = safe_project_ids_stay_distinct [OF d, of ex_hash "Some ex_upload" ex_create "''1''"
      "Some ''abc123''"]
  from t b s have
    "projectId (fst (post_project ex_hash ex_db (Some ex_upload) ex_create)) =
       Some (if ex_db = [] then 1 else Max (proj_id ` set ex_db) + 1)"
    and "map proj_id (snd (post_project ex_hash ex_db (Some ex_upload) ex_create)) =
       map proj_id ex_db @ [if ex_db = [] then 1 else Max (proj_id ` set ex_db) + 1]"
    by blast+
  then have
    a: "projectId (fst (post_project ex_hash ex_db (Some ex_upload) ex_create)) = Some 2"
    and c: "map proj_id (snd (post_project ex_hash ex_db (Some ex_upload) ex_create)) = [1, 2]"
    by (simp_all only: n m append.simps)
  from t b have
    e: "distinct (map proj_id (snd (post_project ex_hash ex_db (Some ex_upload) ex_create)))"
    by blast
  from t have
    f: "distinct (map proj_id (snd (delete_project ex_hash ex_db ''1'' (Some ''abc123''))))"
    by blast
  from d m s a c e f show ?thesis
    by (simp add: ex_delete)
qed


lemma proj_id_store_meta: "proj_id (store_meta b key q) = proj_id q"
  by (simp add: store_meta_def Let_def)



lemma put_parts_meta_accepted:
  assumes "b_partId b = Some k" and "b_password b = Some pw" and "pw \<noteq> []"
    and "findProject db rid = Some p" and "H pw = passwordHash p"
  shows "put_parts_meta H db rid (Some b) =
           (success, update_first (same_id rid) (store_meta b (String_of_key k)) db)"
  using assms by (simp add: put_parts_meta_def truthy_def js_or_def)










text \<open>
  Two keys the amended claim leaves out.  For the part id \<open>constructor\<close> the previous
  entry the handler reads is the inherited function \<open>Object\<close>, so a request without a
  name stores the name \<open>Object\<close>.  For the part id \<open>__proto__\<close> the request is answered
  with status 200 and nothing is stored.
\<close>

lemma put_parts_meta_inherited_keys:
  "Option.bind
     (stored_meta (snd (put_parts_meta ex_hash ex_db ''1''
        (Some (ex_meta_second\<lparr>b_partId := Some (StrKey ''constructor'')\<rparr>)))) ''1'' ''constructor'')
     meta_name = Some ''Object''"
  "put_parts_meta ex_hash ex_db ''1'' (Some (ex_meta_second\<lparr>b_partId := Some (StrKey ''__proto__'')\<rparr>)) =
     (success, ex_db)"
proof -
  have ne: "''abc123'' \<noteq> []" by simp
  have h: "ex_hash ''abc123'' = passwordHash ex_project"
    by (simp add: ex_project_def)
  have pw: "\<And>k. b_password (ex_meta_second\<lparr>b_partId := k\<rparr>) = Some ''abc123''"
    by (simp add: ex_meta_second_def)
  have rc: "put_parts_meta ex_hash ex_db ''1''
              (Some (ex_meta_second\<lparr>b_partId := Some (StrKey ''constructor'')\<rparr>)) =
            (success, update_first (same_id ''1'')
               (store_meta (ex_meta_second\<lparr>b_partId := Some (StrKey ''constructor'')\<rparr>)
                  ''constructor'') ex_db)"
    using put_parts_meta_accepted [where H = ex_hash and k = "StrKey ''constructor''", OF _ pw ne ex_find(1) h]
    by simp
  have rp: "put_parts_meta ex_hash ex_db ''1''
              (Some (ex_meta_second\<lparr>b_partId := Some (StrKey ''__proto__'')\<rparr>)) =
            (success, update_first (same_id ''1'')
               (store_meta (ex_meta_second\<lparr>b_partId := Some (StrKey ''__proto__'')\<rparr>)
                  ''__proto__'') ex_db)"
    using put_parts_meta_accepted [where H = ex_hash and k = "StrKey ''__proto__''", OF _ pw ne ex_find(1) h]
    by simp
  have same: "same_id ''1'' ex_project"
    by (simp add: same_id_def ex_project_def String_of_nat_digit digit_char_def)
  have upd: "\<And>f. update_first (same_id ''1'') f ex_db = [f ex_project]"
    using same by (simp add: ex_db_def)
  have fnd: "\<And>b key. findProject [store_meta b key ex_project] ''1'' =
               Some (store_meta b key ex_project)"
    using same by (simp add: findProject_def same_id_def proj_id_store_meta)
  have "stored_meta (snd (put_parts_meta ex_hash ex_db ''1''
           (Some (ex_meta_second\<lparr>b_partId := Some (StrKey ''constructor'')\<rparr>)))) ''1'' ''constructor'' =
        Some (merge_meta (ex_meta_second\<lparr>b_partId := Some (StrKey ''constructor'')\<rparr>)
                (no_meta\<lparr>meta_name := Some ''Object''\<rparr>))"
    unfolding rc snd_conv upd stored_meta_def fnd
    by (simp add: store_meta_def ex_project_def inherited_entry_def)
  then show "Option.bind
     (stored_meta (snd (put_parts_meta ex_hash ex_db ''1''
        (Some (ex_meta_second\<lparr>b_partId := Some (StrKey ''constructor'')\<rparr>)))) ''1'' ''constructor'')
     meta_name = Some ''Object''"
    by (simp add: merge_meta_def ex_meta_second_def no_meta_def js_or_def)
  have "store_meta (ex_meta_second\<lparr>b_partId := Some (StrKey ''__proto__'')\<rparr>) ''__proto__''
          ex_project = ex_project"
    by (simp add: store_meta_def ex_project_def)
  then show "put_parts_meta ex_hash ex_db ''1''
          (Some (ex_meta_second\<lparr>b_partId := Some (StrKey ''__proto__'')\<rparr>)) = (success, ex_db)"
    unfolding rp upd by (simp add: ex_db_def)
qed

section \<open>Verification of ground snapping\<close>

lemma snap_to_zero:
  assumes law: "\<And>obj d. box_min_y (obj\<lparr>obj_position := (obj_position obj)\<lparr>vy := vy (obj_position obj) + d\<rparr>\<rparr>) =
                  map_option (\<lambda>m. m + d) (box_min_y obj)"
    and fin: "box_min_y obj \<noteq> None"
  shows "Option.bind (snapModelToGround box_min_y (Some obj)) box_min_y = Some 0"
proof -
  from fin obtain m where m: "box_min_y obj = Some m" by auto
  from law [of obj "- m"] m
  have "box_min_y (obj\<lparr>obj_position := (obj_position obj)\<lparr>vy := vy (obj_position obj) - m\<rparr>\<rparr>) = Some 0"
    by simp
  with m show ?thesis by (simp add: snapModelToGround_def)
qed

text \<open>
  Claim C5.  Coordinates are taken as real numbers and the world bounding box as the
  rendering library computes it, of which only this is used: moving the object by
  \<open>d\<close> along Y moves the least world Y by \<open>d\<close>.  For a model with the format tag \<open>stl\<close>,
  whatever its placement before: after the effect of a position change, and after the
  effect of a rotation change, the least world Y of the model is 0, provided the box
  of the model as newly placed is finite.  The snap is part of both effects, so it
  happens on every change and not only when the model is loaded.
\<close>

theorem ground_snap_after_every_change:
  assumes "\<And>obj d. box_min_y (obj\<lparr>obj_position := (obj_position obj)\<lparr>vy := vy (obj_position obj) + d\<rparr>\<rparr>) =
             map_option (\<lambda>m. m + d) (box_min_y obj)"
    and "tag = ''stl''"
  shows
    "(box_min_y (obj\<lparr>obj_position := \<lparr>vx = vx pos, vy = vy pos, vz = vz pos\<rparr>\<rparr>) \<noteq> None \<longrightarrow>
        Option.bind (position_effect box_min_y tag pos (Some obj)) box_min_y = Some 0) \<and>
     (box_min_y (obj\<lparr>obj_rotation := \<lparr>vx = degToRad (vx rot), vy = degToRad (vy rot),
                                        vz = degToRad (vz rot)\<rparr>\<rparr>) \<noteq> None \<longrightarrow>
        Option.bind (rotation_effect box_min_y tag rot (Some obj)) box_min_y = Some 0)"
  using assms(2) snap_to_zero [of box_min_y, OF assms(1)]
  by (simp add: position_effect_def rotation_effect_def Let_def)

lemma ex_box_law:
  "ex_box (obj\<lparr>obj_position := (obj_position obj)\<lparr>vy := vy (obj_position obj) + d\<rparr>\<rparr>) =
     map_option (\<lambda>m. m + d) (ex_box obj)"
  by (simp add: ex_box_def)

theorem ground_snap_after_every_change_witness:
  "ex_box (ex_placed\<lparr>obj_position := \<lparr>vx = vx \<lparr>vx = 1, vy = 2, vz = 3\<rparr>,
                                        vy = vy \<lparr>vx = 1, vy = 2, vz = 3\<rparr>,
                                        vz = vz \<lparr>vx = 1, vy = 2, vz = 3\<rparr>\<rparr>\<rparr>) = Some (- 3) \<and>
   Option.bind (position_effect ex_box ''stl'' \<lparr>vx = 1, vy = 2, vz = 3\<rparr> (Some ex_placed)) ex_box =
     Some 0 \<and>
   map_option obj_position (position_effect ex_box ''stl'' \<lparr>vx = 1, vy = 2, vz = 3\<rparr> (Some ex_placed)) =
     Some \<lparr>vx = 1, vy = 5, vz = 3\<rparr> \<and>
   Option.bind (rotation_effect ex_box ''stl'' \<lparr>vx = 90, vy = 0, vz = 0\<rparr> (Some ex_placed)) ex_box =
     Some 0"
proof -
  have t: "''stl'' = ''stl''" by simp
  note c = ground_snap_after_every_change [where box_min_y = ex_box and tag = "''stl''"
      and obj = ex_placed and pos = "\<lparr>vx = 1, vy = 2, vz = 3\<rparr>"
      and rot = "\<lparr>vx = 90, vy = 0, vz = 0\<rparr>", OF ex_box_law t]
  have f1: "ex_box (ex_placed\<lparr>obj_position := \<lparr>vx = vx \<lparr>vx = 1, vy = 2, vz = 3\<rparr>,
                                        vy = vy \<lparr>vx = 1, vy = 2, vz = 3\<rparr>,
                                        vz = vz \<lparr>vx = 1, vy = 2, vz = 3\<rparr>\<rparr>\<rparr>) = Some (- 3)"
    by (simp add: ex_box_def)
  have f2: "ex_box (ex_placed\<lparr>obj_rotation :=
              \<lparr>vx = degToRad (vx \<lparr>vx = 90, vy = 0, vz = 0\<rparr>),
               vy = degToRad (vy \<lparr>vx = 90, vy = 0, vz = 0\<rparr>),
               vz = degToRad (vz \<lparr>vx = 90, vy = 0, vz = 0\<rparr>)\<rparr>\<rparr>) \<noteq> None"
    by (simp add: ex_box_def)
  from c f1 have a: "Option.bind (position_effect ex_box ''stl'' \<lparr>vx = 1, vy = 2, vz = 3\<rparr>
                       (Some ex_placed)) ex_box = Some 0"
    by simp
  from c f2 have b: "Option.bind (rotation_effect ex_box ''stl'' \<lparr>vx = 90, vy = 0, vz = 0\<rparr>
                       (Some ex_placed)) ex_box = Some 0"
    by blast
  have p: "map_option obj_position (position_effect ex_box ''stl'' \<lparr>vx = 1, vy = 2, vz = 3\<rparr>
             (Some ex_placed)) = Some \<lparr>vx = 1, vy = 5, vz = 3\<rparr>"
    by (simp add: position_effect_def snapModelToGround_def ex_box_def ex_placed_def)
  from f1 a b p show ?thesis by simp
qed

end
